theory Spec2Isabelle
  imports Main "HOL-Library.Word" "HOL-Library.AList" "HOL-Library.List_Lexorder"
    "HOL-Library.Extended_Nat"
begin

section \<open>Strings, bytes and the text decoder\<close>

text \<open>
  A JavaScript string is a sequence of UTF-16 code units; a code unit is modelled as a
  natural number. A \<open>Uint8Array\<close> is a list of 8-bit words. String literals of the
  source are written \<open>asc ''...''\<close>.
\<close>

type_synonym byte = "8 word"
type_synonym jsstring = "nat list"

definition asc :: "string \<Rightarrow> jsstring" where
  "asc s = map of_char s"

text \<open>\<open>bytes[i]\<close>: reading past the end of a typed array gives \<open>undefined\<close>.\<close>

definition byteAt :: "byte list \<Rightarrow> nat \<Rightarrow> byte option" where
  "byteAt bs i = (if i < length bs then Some (bs ! i) else None)"

text \<open>\<open>s.startsWith(p)\<close> and \<open>s.includes(p)\<close>.\<close>

fun starts_with :: "'a list \<Rightarrow> 'a list \<Rightarrow> bool" where
  "starts_with s [] = True"
| "starts_with [] (p # ps) = False"
| "starts_with (c # cs) (p # ps) = (c = p \<and> starts_with cs ps)"

fun js_includes :: "'a list \<Rightarrow> 'a list \<Rightarrow> bool" where
  "js_includes [] p = (p = [])"
| "js_includes (c # cs) p = (starts_with (c # cs) p \<or> js_includes cs p)"

text \<open>\<open>xs.join(sep)\<close>.\<close>

fun join :: "jsstring \<Rightarrow> jsstring list \<Rightarrow> jsstring" where
  "join sep [] = []"
| "join sep [x] = x"
| "join sep (x # y # ys) = x @ sep @ join sep (y # ys)"

text \<open>
  \<open>new TextDecoder().decode(bytes)\<close>: the UTF-8 decoder of the Encoding standard in its
  non-fatal mode. \<open>utf8 cp needed lo hi bs\<close> carries the code point under construction,
  the number of continuation bytes still needed and the bounds for the next byte. A
  malformed sequence gives U+FFFD and the offending byte is read again; an unfinished
  sequence at the end gives U+FFFD. A leading byte order mark is dropped, and code points
  beyond the basic plane become surrogate pairs.
\<close>

function utf8 :: "nat \<Rightarrow> nat \<Rightarrow> nat \<Rightarrow> nat \<Rightarrow> byte list \<Rightarrow> nat list" where
  "utf8 cp needed lo hi [] = (if needed \<noteq> 0 then [0xFFFD] else [])"
| "utf8 cp needed lo hi (b # bs) =
     (let v = unat b in
      if needed = 0 then
        (if v \<le> 0x7F then v # utf8 0 0 0x80 0xBF bs
         else if 0xC2 \<le> v \<and> v \<le> 0xDF then utf8 (v mod 32) 1 0x80 0xBF bs
         else if 0xE0 \<le> v \<and> v \<le> 0xEF then
           utf8 (v mod 16) 2 (if v = 0xE0 then 0xA0 else 0x80) (if v = 0xED then 0x9F else 0xBF) bs
         else if 0xF0 \<le> v \<and> v \<le> 0xF4 then
           utf8 (v mod 8) 3 (if v = 0xF0 then 0x90 else 0x80) (if v = 0xF4 then 0x8F else 0xBF) bs
         else 0xFFFD # utf8 0 0 0x80 0xBF bs)
      else if v < lo \<or> hi < v then 0xFFFD # utf8 0 0 0x80 0xBF (b # bs)
      else if needed = 1 then (cp * 64 + v mod 64) # utf8 0 0 0x80 0xBF bs
      else utf8 (cp * 64 + v mod 64) (needed - 1) 0x80 0xBF bs)"
  by pat_completeness auto
termination
  by (relation "measure (\<lambda>(cp, needed, lo, hi, bs). 2 * length bs + (if needed = 0 then 0 else 1))")
    auto

definition utf16 :: "nat \<Rightarrow> nat list" where
  "utf16 cp = (if cp < 0x10000 then [cp]
               else [0xD800 + (cp - 0x10000) div 0x400, 0xDC00 + (cp - 0x10000) mod 0x400])"

definition strip_bom :: "byte list \<Rightarrow> byte list" where
  "strip_bom bs = (if starts_with bs [0xEF, 0xBB, 0xBF] then drop 3 bs else bs)"

definition decode :: "byte list \<Rightarrow> jsstring" where
  "decode bs = concat (map utf16 (utf8 0 0 0x80 0xBF (strip_bom bs)))"

section \<open>The file handle\<close>

text \<open>
  The browser's \<open>File\<close>: its name, its size, its modification time and the outcome of
  \<open>file.arrayBuffer()\<close>, which either delivers the bytes or rejects with a message.
\<close>

record File =
  file_name :: jsstring
  file_size :: nat
  file_lastModified :: int
  file_arrayBuffer :: "jsstring + byte list"

section \<open>Deep structural analysis (excelChecker.ts, performDeepExcelAnalysis)\<close>

definition hasValidXlsxSignature :: "byte list \<Rightarrow> bool" where
  "hasValidXlsxSignature bytes =
     (length bytes \<ge> 4 \<and> byteAt bytes 0 = Some 0x50 \<and> byteAt bytes 1 = Some 0x4B \<and>
      byteAt bytes 2 = Some 0x03 \<and> byteAt bytes 3 = Some 0x04)"

definition hasValidXlsSignature :: "byte list \<Rightarrow> bool" where
  "hasValidXlsSignature bytes =
     (length bytes \<ge> 8 \<and> byteAt bytes 0 = Some 0xD0 \<and> byteAt bytes 1 = Some 0xCF \<and>
      byteAt bytes 2 = Some 0x11 \<and> byteAt bytes 3 = Some 0xE0)"

text \<open>The format detection block, lines 24 to 49.\<close>

definition formatDetection :: "byte list \<Rightarrow> jsstring list" where
  "formatDetection bytes =
     (if \<not> hasValidXlsxSignature bytes \<and> \<not> hasValidXlsSignature bytes then
        [asc ''File does not have a valid Excel signature.''] @
        (if length bytes \<ge> 4 then
           (if byteAt bytes 0 = Some 0x25 \<and> byteAt bytes 1 = Some 0x50 \<and>
               byteAt bytes 2 = Some 0x44 \<and> byteAt bytes 3 = Some 0x46 then
              [asc ''The file appears to be a PDF file with an Excel extension.'']
            else if byteAt bytes 0 = Some 0xFF \<and> byteAt bytes 1 = Some 0xD8 \<and>
               byteAt bytes 2 = Some 0xFF then
              [asc ''The file appears to be a JPEG image with an Excel extension.'']
            else if byteAt bytes 0 = Some 0x89 \<and> byteAt bytes 1 = Some 0x50 \<and>
               byteAt bytes 2 = Some 0x4E \<and> byteAt bytes 3 = Some 0x47 then
              [asc ''The file appears to be a PNG image with an Excel extension.'']
            else if hasValidXlsxSignature bytes \<and> length bytes > 100 then
              (let textSample = decode (take 1000 bytes) in
               if \<not> js_includes textSample (asc ''workbook.xml'') \<and>
                  \<not> js_includes textSample (asc ''[Content_Types].xml'') then
                 [asc ''The file is a ZIP archive but does not appear to be a valid Office Open XML document.'']
               else [])
            else [])
         else [])
      else [])"

text \<open>
  The search for the end of central directory signature, lines 58 to 66: the index runs
  from \<open>length - 22\<close> down to 0, and not at all when the buffer is shorter than 22 bytes.
\<close>

definition eocdAt :: "byte list \<Rightarrow> nat \<Rightarrow> bool" where
  "eocdAt bytes i =
     (byteAt bytes i = Some 0x50 \<and> byteAt bytes (i + 1) = Some 0x4B \<and>
      byteAt bytes (i + 2) = Some 0x05 \<and> byteAt bytes (i + 3) = Some 0x06)"

fun scanCentralDir :: "byte list \<Rightarrow> nat \<Rightarrow> bool" where
  "scanCentralDir bytes 0 = eocdAt bytes 0"
| "scanCentralDir bytes (Suc i) = (eocdAt bytes (Suc i) \<or> scanCentralDir bytes i)"

definition hasCentralDir :: "byte list \<Rightarrow> bool" where
  "hasCentralDir bytes =
     (if int (length bytes) - 22 \<ge> 0 then scanCentralDir bytes (length bytes - 22) else False)"

definition requiredComponents :: "jsstring list" where
  "requiredComponents =
     [asc ''[Content_Types].xml'', asc ''workbook.xml'', asc ''sheet'', asc ''styles.xml'',
      asc ''sharedStrings'']"

text \<open>The body of the \<open>try\<close> block that analyses the ZIP structure, lines 56 to 92.\<close>

definition zipStructure :: "byte list \<Rightarrow> jsstring list" where
  "zipStructure bytes =
     (if \<not> hasCentralDir bytes then
        [asc ''ZIP Central Directory is missing or corrupt.'',
         asc ''This indicates the file was not properly closed when saved or was truncated.'']
      else []) @
     (let textSample = decode (take (min (length bytes) 3000) bytes);
          missingComponents = filter (\<lambda>component. \<not> js_includes textSample component) requiredComponents
      in if length missingComponents > 0 then
           [asc ''Missing essential XLSX components: '' @ join (asc '', '') missingComponents] @
           (if asc ''[Content_Types].xml'' \<in> set missingComponents then
              [asc ''Missing [Content_Types].xml indicates severe corruption.'']
            else [])
         else [])"

text \<open>\<open>name.endsWith(s)\<close>.\<close>

definition ends_with :: "'a list \<Rightarrow> 'a list \<Rightarrow> bool" where
  "ends_with s p = starts_with (rev s) (rev p)"

definition formatIdentification :: "jsstring \<Rightarrow> byte list \<Rightarrow> jsstring list" where
  "formatIdentification fname bytes =
     (if hasValidXlsxSignature bytes then
        [asc ''File has a valid XLSX/ZIP signature.''] @ zipStructure bytes
      else if hasValidXlsSignature bytes then
        [asc ''File has a valid binary XLS (BIFF) format signature.''] @
        (if ends_with fname (asc ''.xlsx'') then
           [asc ''The file is in the older XLS format but has an .xlsx extension. This mismatch can cause compatibility issues.'']
         else [])
      else [])"

text \<open>
  \<open>bytes.includes(0x50, bytes.length - 100)\<close>: a negative start index counts from the
  end and is clamped to 0.
\<close>

definition includesFrom :: "byte list \<Rightarrow> byte \<Rightarrow> int \<Rightarrow> bool" where
  "includesFrom bytes b fromIndex =
     (let k = (if fromIndex \<ge> 0 then fromIndex else max 0 (int (length bytes) + fromIndex))
      in b \<in> set (drop (nat k) bytes))"

definition sizeConsistency :: "byte list \<Rightarrow> jsstring list" where
  "sizeConsistency bytes =
     (if length bytes < 2000 \<and> length bytes > 100 then
        [asc ''File size is suspiciously small for a functional Excel workbook.''] @
        (if hasValidXlsxSignature bytes \<and> \<not> includesFrom bytes 0x50 (int (length bytes) - 100) then
           [asc ''File appears to be truncated (premature end of file).'']
         else [])
      else [])"

definition passwordProtection :: "byte list \<Rightarrow> jsstring list" where
  "passwordProtection bytes =
     (if length bytes > 500 then
        (let textSample = decode (take (min (length bytes) 2000) bytes) in
         if js_includes textSample (asc ''EncryptedPackage'') \<or>
            js_includes textSample (asc ''encryption'') \<or>
            js_includes textSample (asc ''EncryptionInfo'') \<or>
            js_includes textSample (asc ''StrongEncryptionDataSpace'') then
           [asc ''File appears to be password protected or encrypted.'',
            asc ''Password-protected files cannot be analyzed without the correct password.'']
         else [])
      else [])"

text \<open>
  The issues pushed for a buffer, in the order of the source. Nothing in the \<open>try\<close>
  block of lines 56 to 92 can throw (indexing a typed array, a non-fatal decoder, string
  searches), so its \<open>catch\<close> has no branch here.
\<close>

definition deepIssues :: "jsstring \<Rightarrow> byte list \<Rightarrow> jsstring list" where
  "deepIssues fname bytes =
     formatDetection bytes @ formatIdentification fname bytes @
     sizeConsistency bytes @ passwordProtection bytes"

text \<open>
  \<open>performDeepExcelAnalysis(file)\<close>: the promise is rejected exactly when reading the
  file is (\<open>Inl\<close>), and resolves to the list of issues otherwise.
\<close>

definition performDeepExcelAnalysis :: "File \<Rightarrow> jsstring + jsstring list" where
  "performDeepExcelAnalysis file =
     (case file_arrayBuffer file of
        Inl e \<Rightarrow> Inl e
      | Inr buffer \<Rightarrow> Inr (deepIssues (file_name file) buffer))"

section \<open>Corruption diagnosis (excelChecker.ts, analyzeCorruptedExcel)\<close>

text \<open>
  Numbers in template strings. \<open>show_nat\<close> prints a count or a size in decimal, as
  \<open>String(n)\<close> does for every integer below \<open>2^53\<close>. \<open>toFixed2 num den\<close> is
  \<open>(num / den).toFixed(2)\<close> for a quotient that a double holds exactly (the source
  divides a file size by a power of two): the nearest multiple of 0.01, ties upwards.
\<close>

fun show_nat :: "nat \<Rightarrow> jsstring" where
  "show_nat n = (if n < 10 then [48 + n] else show_nat (n div 10) @ [48 + n mod 10])"

declare show_nat.simps [simp del]

definition toFixed2 :: "nat \<Rightarrow> nat \<Rightarrow> jsstring" where
  "toFixed2 num den =
     (let n = (num * 200 + den) div (2 * den);
          digits = show_nat n;
          padded = replicate (3 - length digits) 48 @ digits
      in take (length padded - 2) padded @ asc ''.'' @ drop (length padded - 2) padded)"

text \<open>The chain of error patterns, lines 140 to 159: the issues and the recommendations.\<close>

definition errorPatterns :: "jsstring \<Rightarrow> jsstring list \<times> jsstring list" where
  "errorPatterns errorMsg =
     (if js_includes errorMsg (asc ''Unsupported ZIP Compression method NaN'') then
        ([asc ''The file uses an unsupported compression method (NaN).'',
          asc ''This typically happens with Excel files saved in very old versions or with non-standard tools.''],
         [asc ''Try opening the file in Microsoft Excel and using \"Save As\" to create a new XLSX file.'',
          asc ''If the original file cannot be opened, try a file recovery tool like \"Office File Recovery\".''])
      else if js_includes errorMsg (asc ''Local File Header signature not found'') then
        ([asc ''ZIP file structure is invalid - Local File Header signature missing.'',
          asc ''This suggests the file has been truncated or corrupted during transfer.''],
         [asc ''Request the original file again if it was shared with you.'',
          asc ''Check if your antivirus software might be corrupting the file during download.''])
      else if js_includes errorMsg (asc ''End of Central Directory Record not found'') then
        ([asc ''ZIP file structure is invalid - End of Central Directory Record missing.'',
          asc ''This suggests the file is incomplete or was not properly finalized when saved.''],
         [asc ''Try using a ZIP repair tool to fix the file structure.'',
          asc ''If possible, try to recreate the Excel file from the source.''])
      else if js_includes errorMsg (asc ''incorrect header check'') then
        ([asc ''ZIP compression header is invalid or corrupted.'',
          asc ''This often happens when file transfers are interrupted or when files are corrupted in storage.''],
         [asc ''Try downloading the file again or requesting a new copy.''])
      else ([], []))"

text \<open>The recommendations drawn from the deep analysis, lines 167 to 185.\<close>

definition deepRecommendations :: "jsstring list \<Rightarrow> jsstring list" where
  "deepRecommendations deepAnalysisResults =
     (if list_ex (\<lambda>result. js_includes result (asc ''XLS format'')) deepAnalysisResults then
        [asc ''This appears to be a binary XLS file. Try renaming it with .xls extension and opening in Excel.'']
      else []) @
     (if list_ex (\<lambda>result. js_includes result (asc ''password protected'')) deepAnalysisResults then
        [asc ''You need the original password to open this file. Contact the file creator for the password.'']
      else []) @
     (if list_ex (\<lambda>result. js_includes result (asc ''truncated'')) deepAnalysisResults then
        [asc ''The file appears to be incomplete. Try to obtain a complete copy of the file.'']
      else []) @
     (if list_ex (\<lambda>result. js_includes result (asc ''ZIP Central Directory is missing'')) deepAnalysisResults then
        [asc ''Try using a ZIP repair tool like \"ZipRepair\" or \"DiskInternals ZIP Repair\" to rebuild the central directory.'']
      else []) @
     (if list_ex (\<lambda>result. js_includes result (asc ''Missing essential XLSX components'')) deepAnalysisResults then
        [asc ''The internal structure of the Excel file is damaged. Try Excel's built-in repair feature by opening Excel first, then using File > Open and selecting \"Open and Repair\".'']
      else [])"

text \<open>
  The two accumulators \<open>issues\<close> and \<open>recommendations\<close> as they stand at line 198:
  after the error patterns, after the \<open>try\<close> block around the deep analysis (whose
  \<open>catch\<close> records a rejected read as one more issue) and after the fallback for an
  empty issue list.
\<close>

definition corruptionFindings :: "File \<Rightarrow> jsstring \<Rightarrow> jsstring list \<times> jsstring list" where
  "corruptionFindings file errorMsg =
     (let (issues0, recommendations0) = errorPatterns errorMsg;
          (issues1, recommendations1) =
            (case performDeepExcelAnalysis file of
               Inr deepAnalysisResults \<Rightarrow>
                 (issues0 @ deepAnalysisResults,
                  recommendations0 @ deepRecommendations deepAnalysisResults)
             | Inl analysisError \<Rightarrow>
                 (issues0 @ [asc ''Error during detailed analysis: '' @ analysisError],
                  recommendations0))
      in if length issues1 = 0 then
           (issues1 @
              [asc ''Unable to determine the exact corruption issue.'',
               asc ''Raw error: '' @ errorMsg,
               asc ''The file might be corrupted, password protected, or use an unsupported format.''],
            recommendations1 @
              [asc ''Try using Microsoft Excel's built-in repair feature.'',
               asc ''If the file is crucial, consider using a commercial Excel recovery tool.''])
         else (issues1, recommendations1))"

text \<open>
  What the code takes from its platform and its two parser libraries: the locale's
  rendering of a date, \<open>XLSX.read\<close>, \<open>XLSX.utils.decode_range\<close> (the last row and
  column of a range) and ExcelJS's \<open>xlsx.load\<close>, each either returning or throwing a
  message, and the engine's wording of the \<open>TypeError\<close> for reading \<open>length\<close> of
  \<open>undefined\<close>. A SheetJS workbook is kept as far as the checks look at it: its sheet
  names (absent when the library sets none), its sheets with their \<open>!ref\<close> and their
  keys, each key with its formula when it has one, whether it carries VBA, and its
  defined names. Of an ExcelJS worksheet the checks only read the lengths of two arrays.
\<close>

record WorkSheet =
  ws_ref :: "jsstring option"
  ws_cells :: "(jsstring \<times> jsstring option) list"

record WorkBook =
  SheetNames :: "jsstring list option"
  Sheets :: "(jsstring \<times> WorkSheet) list"
  vbaraw :: bool
  Names :: "jsstring list option"

record ExcelJsSheet =
  drawings :: "nat option"
  conditionalFormattingRules :: "nat option"

record Env =
  toLocaleString :: "int \<Rightarrow> jsstring"
  XLSX_read :: "byte list \<Rightarrow> jsstring + WorkBook"
  decode_range :: "jsstring \<Rightarrow> jsstring + (int \<times> int)"
  ExcelJS_load :: "byte list \<Rightarrow> jsstring + ExcelJsSheet list"
  undefinedLengthError :: jsstring

definition analyzeCorruptedExcel :: "Env \<Rightarrow> File \<Rightarrow> jsstring \<Rightarrow> jsstring" where
  "analyzeCorruptedExcel env file errorMsg =
     (let (issues, recommendations) = corruptionFindings file errorMsg;
          diagnosticsReport =
            [asc ''=== ISSUE DETAILS ===''] @ issues @
            [[], asc ''=== REPAIR RECOMMENDATIONS ===''] @ recommendations @
            [[], asc ''=== TECHNICAL DETAILS ==='',
             asc ''File name: '' @ file_name file,
             asc ''File size: '' @ toFixed2 (file_size file) 1024 @ asc '' KB'',
             asc ''Last modified: '' @ toLocaleString env (file_lastModified file)]
      in join [10] diagnosticsReport)"

section \<open>Regular expressions of the source\<close>

text \<open>
  Each regular expression of the source is a function that tries to match at the start
  of a string and returns the captured groups with the text after the match. The
  engine's search for the leftmost match is \<open>first_match\<close>; the \<open>exec\<close> loop of a
  global expression, which resumes after each match, is \<open>all_matches\<close>. No expression
  of the source matches the empty string, so the loop always advances; the guard on the
  length makes that visible to the termination proof.
\<close>

fun first_match :: "('a list \<Rightarrow> 'm option) \<Rightarrow> 'a list \<Rightarrow> 'm option" where
  "first_match here [] = here []"
| "first_match here (c # cs) =
     (case here (c # cs) of Some m \<Rightarrow> Some m | None \<Rightarrow> first_match here cs)"

fun all_matches :: "('a list \<Rightarrow> ('m \<times> 'a list) option) \<Rightarrow> 'a list \<Rightarrow> 'm list" where
  "all_matches here [] = []"
| "all_matches here (c # cs) =
     (case here (c # cs) of
        None \<Rightarrow> all_matches here cs
      | Some (m, rest) \<Rightarrow>
          m # (if length rest \<le> length cs then all_matches here rest else []))"

text \<open>
  \<open>split_first p s\<close>: the text before the first occurrence of \<open>p\<close> in \<open>s\<close> and the text
  after it. A lazy \<open>[\s\S]*?\<close> followed by a literal stops there.
\<close>

fun split_first :: "'a list \<Rightarrow> 'a list \<Rightarrow> ('a list \<times> 'a list) option" where
  "split_first p [] = (if p = [] then Some ([], []) else None)"
| "split_first p (c # cs) =
     (if starts_with (c # cs) p then Some ([], drop (length p) (c # cs))
      else map_option (\<lambda>(g, r). (c # g, r)) (split_first p cs))"

text \<open>The dot of a regular expression matches every code unit but the line terminators.\<close>

definition lineTerminator :: "nat \<Rightarrow> bool" where
  "lineTerminator c = (c = 10 \<or> c = 13 \<or> c = 0x2028 \<or> c = 0x2029)"

text \<open>
  \<open>pre(.*?)post\<close> for literals \<open>pre\<close> and \<open>post\<close>: the group runs to the first
  occurrence of \<open>post\<close> and must not cross a line terminator.
\<close>

definition lazyDot :: "jsstring \<Rightarrow> jsstring \<Rightarrow> jsstring \<Rightarrow> (jsstring \<times> jsstring) option" where
  "lazyDot pre post s =
     (if starts_with s pre then
        (case split_first post (drop (length pre) s) of
           Some (g, rest) \<Rightarrow> if list_ex lineTerminator g then None else Some (g, rest)
         | None \<Rightarrow> None)
      else None)"

section \<open>Metadata salvage (excelChecker.ts, extractBasicMetadata)\<close>

text \<open>
  The metadata object as the list of its entries in insertion order. A field is set when
  its expression matches and the group is not empty.
\<close>

definition metadataField :: "string \<Rightarrow> jsstring \<Rightarrow> jsstring \<Rightarrow> jsstring \<Rightarrow> (jsstring \<times> jsstring) list" where
  "metadataField key pre post textSample =
     (case first_match (lazyDot pre post) textSample of
        Some (g, rest) \<Rightarrow> if g \<noteq> [] then [(asc key, g)] else []
      | None \<Rightarrow> [])"

definition metadataSheets :: "jsstring \<Rightarrow> (jsstring \<times> jsstring) list" where
  "metadataSheets textSample =
     (let sheetNames = all_matches (lazyDot (asc ''<sheet name=\"'') (asc ''\"'')) textSample
      in if length sheetNames > 0 then
           [(asc ''sheets'', join (asc '', '') sheetNames),
            (asc ''sheetCount'', show_nat (length sheetNames))]
         else [])"

definition extractBasicMetadata :: "File \<Rightarrow> (jsstring \<times> jsstring) list" where
  "extractBasicMetadata file =
     (case file_arrayBuffer file of
        Inl error \<Rightarrow> [(asc ''extractionError'', error)]
      | Inr bytes \<Rightarrow>
          (let textSample = decode (take (min (length bytes) 10000) bytes) in
           metadataField ''creator'' (asc ''dc:creator>'') (asc ''</dc:creator'') textSample @
           metadataField ''lastModifiedBy'' (asc ''cp:lastModifiedBy>'') (asc ''</cp:lastModifiedBy'') textSample @
           metadataField ''creationDate'' (asc ''dcterms:created>'') (asc ''</dcterms:created'') textSample @
           metadataField ''application'' (asc ''Application>'') (asc ''</Application'') textSample @
           metadataSheets textSample))"

section \<open>The compatibility report (types.ts, excelChecker.ts)\<close>

datatype Status = Success | Warning | Error

record CheckResult =
  status :: Status
  message :: jsstring
  details :: "jsstring option"
  location :: "jsstring option"

record CompatibilityReport =
  fileName :: jsstring
  fileSize :: nat
  lastModified :: int
  results :: "CheckResult list"
  totalIssues :: nat
  isCompatible :: bool

text \<open>
  \<open>name.match(/\.(xlsx|xls|xlsm|xlsb)$/i)\<close>. Without the unicode flag the engine never
  lets a character outside ASCII match an ASCII letter, so folding the ASCII capitals is
  the whole of the \<open>i\<close> flag here.
\<close>

definition ascii_lower :: "nat \<Rightarrow> nat" where
  "ascii_lower c = (if 65 \<le> c \<and> c \<le> 90 then c + 32 else c)"

definition hasExcelExtension :: "jsstring \<Rightarrow> bool" where
  "hasExcelExtension fname =
     (let n = map ascii_lower fname
      in ends_with n (asc ''.xlsx'') \<or> ends_with n (asc ''.xls'') \<or>
         ends_with n (asc ''.xlsm'') \<or> ends_with n (asc ''.xlsb''))"

definition isValidExcelFile :: "File \<Rightarrow> bool" where
  "isValidExcelFile file =
     (if \<not> hasExcelExtension (file_name file) then False
      else if file_size file < 128 then False
      else True)"

text \<open>
  The checks of lines 443 to 709. Each one only pushes onto \<open>results\<close>, so each is the
  list of what it pushes.
\<close>

definition checkFileFormat :: "File \<Rightarrow> CheckResult list" where
  "checkFileFormat file =
     (if \<not> hasExcelExtension (file_name file) then
        [\<lparr>status = Error, message = asc ''File does not have a valid Excel extension'',
          details = Some (asc ''Valid extensions are .xlsx, .xls, .xlsm, and .xlsb''),
          location = None\<rparr>]
      else if file_size file > 100 * 1024 * 1024 then
        [\<lparr>status = Warning, message = asc ''File size exceeds recommended limit'',
          details = Some (asc ''The file is '' @ toFixed2 (file_size file) (1024 * 1024) @
                          asc ''MB. Excel works best with files under 100MB.''),
          location = None\<rparr>]
      else
        [\<lparr>status = Success, message = asc ''File size is within recommended limits'',
          details = None, location = None\<rparr>])"

definition forbiddenSheetChar :: "nat \<Rightarrow> bool" where
  "forbiddenSheetChar c = (c = 92 \<or> c \<in> set (asc ''/*?[]:''))"

definition checkSheetName :: "jsstring \<Rightarrow> CheckResult list" where
  "checkSheetName sheetName =
     (if length sheetName > 31 then
        [\<lparr>status = Error, message = asc ''Sheet name too long'',
          details = Some (asc ''The sheet \"'' @ sheetName @
                          asc ''\" has a name longer than 31 characters, which is not supported by Excel.''),
          location = Some sheetName\<rparr>]
      else []) @
     (if list_ex forbiddenSheetChar sheetName then
        [\<lparr>status = Error, message = asc ''Invalid characters in sheet name'',
          details = Some (asc ''The sheet \"'' @ sheetName @
                          asc ''\" contains characters not supported by Excel: '' @ [92] @
                          asc '' / * ? [ ] :''),
          location = Some sheetName\<rparr>]
      else [])"

definition checkWorkbookStructure :: "WorkBook \<Rightarrow> CheckResult list" where
  "checkWorkbookStructure workbook =
     (case SheetNames workbook of
        None \<Rightarrow>
          [\<lparr>status = Error, message = asc ''Invalid workbook structure'',
            details = Some (asc ''Unable to detect worksheet information''), location = None\<rparr>]
      | Some names \<Rightarrow>
          (let sheetCount = length names in
           if sheetCount > 255 then
             [\<lparr>status = Error, message = asc ''Too many worksheets'',
               details = Some (asc ''The workbook contains '' @ show_nat sheetCount @
                               asc '' worksheets. Excel supports a maximum of 255.''),
               location = None\<rparr>]
           else
             [\<lparr>status = Success, message = asc ''Worksheet count is within Excel limits'',
               details = None, location = None\<rparr>]) @
          concat (map checkSheetName names))"

text \<open>An empty \<open>!ref\<close> is falsy and skipped like a missing one.\<close>

definition checkSheetCells :: "Env \<Rightarrow> WorkBook \<Rightarrow> jsstring \<Rightarrow> CheckResult list" where
  "checkSheetCells env workbook sheetName =
     (case map_of (Sheets workbook) sheetName of
        None \<Rightarrow> []
      | Some worksheet \<Rightarrow>
          (case ws_ref worksheet of
             None \<Rightarrow> []
           | Some ref \<Rightarrow>
               if ref = [] then []
               else
                 (case decode_range env ref of
                    Inl error \<Rightarrow>
                      [\<lparr>status = Warning, message = asc ''Unable to check cell limits'',
                        details = Some (asc ''Could not analyze cell range for sheet \"'' @ sheetName @ asc ''\"''),
                        location = Some sheetName\<rparr>]
                  | Inr (r, c) \<Rightarrow>
                      (if r > 1048575 then
                         [\<lparr>status = Error, message = asc ''Too many rows'',
                           details = Some (asc ''Sheet \"'' @ sheetName @
                              asc ''\" contains data beyond row 1,048,576, which is Excel's limit.''),
                           location = Some sheetName\<rparr>]
                       else []) @
                      (if c > 16383 then
                         [\<lparr>status = Error, message = asc ''Too many columns'',
                           details = Some (asc ''Sheet \"'' @ sheetName @
                              asc ''\" contains data beyond column XFD (16,384), which is Excel's limit.''),
                           location = Some sheetName\<rparr>]
                       else []))))"

definition checkCellFormats :: "Env \<Rightarrow> WorkBook \<Rightarrow> CheckResult list" where
  "checkCellFormats env workbook =
     (case SheetNames workbook of
        None \<Rightarrow> []
      | Some names \<Rightarrow> concat (map (checkSheetCells env workbook) names))"

definition checkCellFormula :: "jsstring \<Rightarrow> jsstring \<times> jsstring option \<Rightarrow> CheckResult list" where
  "checkCellFormula sheetName kv =
     (case kv of (cell, f) \<Rightarrow>
        if (case cell of c # cs \<Rightarrow> c = 33 | [] \<Rightarrow> False) then []
        else
          (case f of
             None \<Rightarrow> []
           | Some formula \<Rightarrow>
               if length formula > 8192 then
                 [\<lparr>status = Error, message = asc ''Formula too long'',
                   details = Some (asc ''Formula in '' @ sheetName @ asc ''!'' @ cell @
                      asc '' exceeds Excel's maximum length of 8,192 characters.''),
                   location = Some (sheetName @ asc ''!'' @ cell)\<rparr>]
               else []))"

definition checkFormulas :: "WorkBook \<Rightarrow> CheckResult list" where
  "checkFormulas workbook =
     (case SheetNames workbook of
        None \<Rightarrow> []
      | Some names \<Rightarrow>
          concat (map (\<lambda>sheetName.
            case map_of (Sheets workbook) sheetName of
              None \<Rightarrow> []
            | Some worksheet \<Rightarrow> concat (map (checkCellFormula sheetName) (ws_cells worksheet)))
            names))"

definition checkCharts :: "ExcelJsSheet list \<Rightarrow> CheckResult list" where
  "checkCharts workbook =
     (let chartCount = sum_list (map (\<lambda>worksheet. case drawings worksheet of Some n \<Rightarrow> n | None \<Rightarrow> 0) workbook)
      in if chartCount > 0 then
           [\<lparr>status = Success,
             message = asc ''Workbook contains '' @ show_nat chartCount @ asc '' chart(s)'',
             details = None, location = None\<rparr>]
         else [])"

definition checkMacros :: "WorkBook \<Rightarrow> CheckResult list" where
  "checkMacros workbook =
     (if vbaraw workbook then
        [\<lparr>status = Warning, message = asc ''Workbook contains VBA macros'',
          details = Some (asc ''VBA macros may have compatibility issues between different Excel versions.''),
          location = None\<rparr>]
      else [])"

definition checkNamedRanges :: "WorkBook \<Rightarrow> CheckResult list" where
  "checkNamedRanges workbook =
     (case Names workbook of
        None \<Rightarrow> []
      | Some namedRanges \<Rightarrow>
          if length namedRanges > 0 then
            concat (map (\<lambda>n.
              if length n > 255 then
                [\<lparr>status = Error, message = asc ''Named range name too long'',
                  details = Some (asc ''The named range \"'' @ n @
                                  asc ''\" exceeds Excel's 255 character limit.''),
                  location = None\<rparr>]
              else []) namedRanges) @
            [\<lparr>status = Success,
              message = asc ''Found '' @ show_nat (length namedRanges) @ asc '' named range(s)'',
              details = None, location = None\<rparr>]
          else [])"

definition checkConditionalFormatting :: "ExcelJsSheet list \<Rightarrow> CheckResult list" where
  "checkConditionalFormatting workbook =
     (let cfCount = sum_list (map (\<lambda>worksheet.
            case conditionalFormattingRules worksheet of Some n \<Rightarrow> n | None \<Rightarrow> 0) workbook)
      in if cfCount > 0 then
           (if cfCount > 64000 then
              [\<lparr>status = Error, message = asc ''Too many conditional formatting rules'',
                details = Some (asc ''The workbook contains '' @ show_nat cfCount @
                  asc '' conditional formatting rules. Excel's limit is 64,000.''),
                location = None\<rparr>]
            else
              [\<lparr>status = Success,
                message = asc ''Found '' @ show_nat cfCount @ asc '' conditional formatting rule(s)'',
                details = None, location = None\<rparr>])
         else [])"

section \<open>The analysis entry point (excelChecker.ts, checkExcelCompatibility)\<close>

definition metadataText :: "(jsstring \<times> jsstring) list \<Rightarrow> jsstring" where
  "metadataText metadata =
     (if length metadata > 0 then
        asc ''Recovered Metadata:'' @ [10] @
        join [10] (map (\<lambda>(key, value). key @ asc '': '' @ value) metadata)
      else [])"

definition metadataResults :: "(jsstring \<times> jsstring) list \<Rightarrow> CheckResult list" where
  "metadataResults metadata =
     (if length metadata > 0 then
        [\<lparr>status = Success, message = asc ''Successfully extracted some file metadata'',
          details = Some (metadataText metadata), location = None\<rparr>]
      else [])"

definition zipCompressionError :: "jsstring \<Rightarrow> bool" where
  "zipCompressionError errorMsg =
     (js_includes errorMsg (asc ''ZIP'') \<or> js_includes errorMsg (asc ''NaN'') \<or>
      js_includes errorMsg (asc ''compression''))"

text \<open>The message of the error thrown at lines 340 and 370.\<close>

definition diagnosticsError :: "Env \<Rightarrow> File \<Rightarrow> jsstring \<Rightarrow> jsstring \<Rightarrow> jsstring" where
  "diagnosticsError env file errorMsg mdText =
     (let detailedDiagnostics = analyzeCorruptedExcel env file errorMsg;
          fullDiagnostics =
            (if mdText \<noteq> [] then
               detailedDiagnostics @ [10, 10] @ asc ''=== RECOVERED METADATA ==='' @ [10] @ mdText
             else detailedDiagnostics)
      in asc ''Unsupported ZIP compression method or corrupted Excel file. Please try resaving the file in a newer version of Excel.'' @
         [10, 10] @ asc ''Detailed diagnostics:'' @ [10] @ fullDiagnostics)"

definition emptyWorkBook :: WorkBook where
  "emptyWorkBook = \<lparr>SheetNames = Some [], Sheets = [], vbaraw = False, Names = None\<rparr>"

text \<open>
  The body of the outer \<open>try\<close>, lines 288 to 403. \<open>Inl (message, results)\<close> is an
  exception leaving the block with the given message, \<open>results\<close> being what had been
  pushed by then; \<open>Inr report\<close> is the \<open>return\<close> of line 396. The stages are the SheetJS
  attempt (lines 318 to 349) and the ExcelJS attempt (lines 351 to 380).
\<close>

definition sheetJsStage ::
  "Env \<Rightarrow> File \<Rightarrow> byte list \<Rightarrow> jsstring \<Rightarrow> CheckResult list \<Rightarrow>
   (jsstring \<times> CheckResult list) + (WorkBook \<times> CheckResult list)" where
  "sheetJsStage env file data mdText results0 =
     (case XLSX_read env data of
        Inr workbook \<Rightarrow> Inr (workbook, results0)
      | Inl errorMsg \<Rightarrow>
          if zipCompressionError errorMsg then
            Inl (diagnosticsError env file errorMsg mdText, results0)
          else
            Inr (emptyWorkBook,
                 results0 @
                 [\<lparr>status = Error, message = asc ''Failed to parse Excel file with SheetJS'',
                   details = Some errorMsg, location = None\<rparr>]))"

definition excelJsStage ::
  "Env \<Rightarrow> File \<Rightarrow> byte list \<Rightarrow> jsstring \<Rightarrow> WorkBook \<Rightarrow> CheckResult list \<Rightarrow>
   (jsstring \<times> CheckResult list) + (ExcelJsSheet list \<times> CheckResult list)" where
  "excelJsStage env file data mdText workbook results1 =
     (case ExcelJS_load env data of
        Inr excelJsWorkbook \<Rightarrow> Inr (excelJsWorkbook, results1)
      | Inl errorMsg \<Rightarrow>
          (let recovered =
                 Inr ([],
                      results1 @
                      [\<lparr>status = Error, message = asc ''Failed to parse Excel file with ExcelJS'',
                        details = Some errorMsg, location = None\<rparr>])
           in if zipCompressionError errorMsg then
                (case SheetNames workbook of
                   None \<Rightarrow> Inl (undefinedLengthError env, results1)
                 | Some names \<Rightarrow>
                     if length names = 0 then
                       Inl (diagnosticsError env file errorMsg mdText, results1)
                     else recovered)
              else recovered))"

definition tryBlock :: "Env \<Rightarrow> File \<Rightarrow> (jsstring \<times> CheckResult list) + CompatibilityReport" where
  "tryBlock env file =
     (let metadata = extractBasicMetadata file;
          mdText = metadataText metadata;
          results0 = metadataResults metadata
      in if \<not> isValidExcelFile file then
           Inl (asc ''Invalid or corrupted Excel file format'', results0)
         else
           (case file_arrayBuffer file of
              Inl readError \<Rightarrow> Inl (readError, results0)
            | Inr data \<Rightarrow>
                (case sheetJsStage env file data mdText results0 of
                   Inl thrown \<Rightarrow> Inl thrown
                 | Inr (workbook, results1) \<Rightarrow>
                     (case excelJsStage env file data mdText workbook results1 of
                        Inl thrown \<Rightarrow> Inl thrown
                      | Inr (excelJsWorkbook, results2) \<Rightarrow>
                          (let results3 =
                                 results2 @ checkFileFormat file @ checkWorkbookStructure workbook @
                                 checkCellFormats env workbook @ checkFormulas workbook @
                                 checkCharts excelJsWorkbook @ checkMacros workbook @
                                 checkNamedRanges workbook @
                                 checkConditionalFormatting excelJsWorkbook
                           in Inr \<lparr>fileName = file_name file, fileSize = file_size file,
                                   lastModified = file_lastModified file,
                                   results = results3,
                                   totalIssues = length (filter (\<lambda>r. status r \<noteq> Success) results3),
                                   isCompatible = (\<not> list_ex (\<lambda>r. status r = Error) results3)\<rparr>)))))"

text \<open>
  \<open>checkExcelCompatibility\<close>: the \<open>try\<close> block and its \<open>catch\<close>, lines 404 to 420. The
  result is the settlement of the returned promise, \<open>Inr\<close> a report and \<open>Inl\<close> a
  rejection.
\<close>

definition checkExcelCompatibility :: "Env \<Rightarrow> File \<Rightarrow> jsstring + CompatibilityReport" where
  "checkExcelCompatibility env file =
     (case tryBlock env file of
        Inr report \<Rightarrow> Inr report
      | Inl (error, results0) \<Rightarrow>
          (let results1 =
                 results0 @
                 [\<lparr>status = Error, message = asc ''Failed to process Excel file'',
                   details = Some error, location = None\<rparr>]
           in Inr \<lparr>fileName = file_name file, fileSize = file_size file,
                   lastModified = file_lastModified file,
                   results = results1,
                   totalIssues = length results1,
                   isCompatible = False\<rparr>))"

text \<open>
  The uploader's own check in front of the entry point (FileUploader.tsx, processFile):
  \<open>Inl\<close> is the message shown to the user, \<open>Inr\<close> the report handed on.
\<close>

definition processFile :: "Env \<Rightarrow> File \<Rightarrow> jsstring + CompatibilityReport" where
  "processFile env file =
     (if \<not> hasExcelExtension (file_name file) then
        Inl (asc ''Please upload a valid Excel file (.xlsx, .xls, .xlsm, or .xlsb)'')
      else if ends_with (file_name file) (asc ''.xlsx'') \<and> file_size file < 128 then
        Inl (asc ''This Excel file appears to be corrupted or empty.'')
      else
        (case checkExcelCompatibility env file of
           Inr report \<Rightarrow> Inr report
         | Inl errorMessage \<Rightarrow>
             if zipCompressionError errorMessage then
               Inl (asc ''This Excel file uses an unsupported compression method or is corrupted. Please try a different file or resave it in a newer version of Excel.'')
             else Inl errorMessage))"

text \<open>An environment in which both parsers reject every buffer, for concrete runs.\<close>

definition failingEnv :: Env where
  "failingEnv =
     \<lparr>toLocaleString = (\<lambda>t. show_nat (nat t)),
      XLSX_read = (\<lambda>data. Inl (asc ''Unsupported ZIP Compression method NaN'')),
      decode_range = (\<lambda>ref. Inl (asc ''bad range'')),
      ExcelJS_load = (\<lambda>data. Inl (asc ''End of data reached'')),
      undefinedLengthError = asc ''Cannot read properties of undefined (reading 'length')''\<rparr>"

text \<open>Bytes of an ASCII string, and three small files for concrete runs.\<close>

definition ascii_bytes :: "string \<Rightarrow> byte list" where
  "ascii_bytes s = map of_char s"

definition blankXlsx50 :: File where
  "blankXlsx50 =
     \<lparr>file_name = asc ''report.xlsx'', file_size = 50, file_lastModified = 0,
      file_arrayBuffer = Inr (replicate 50 0)\<rparr>"

definition creatorXlsx50 :: File where
  "creatorXlsx50 =
     \<lparr>file_name = asc ''report.xlsx'', file_size = 50, file_lastModified = 0,
      file_arrayBuffer = Inr (ascii_bytes ''dc:creator>Bob</dc:creator'' @ replicate 24 0)\<rparr>"

definition creatorXls50 :: File where
  "creatorXls50 =
     \<lparr>file_name = asc ''report.xls'', file_size = 50, file_lastModified = 0,
      file_arrayBuffer = Inr (ascii_bytes ''dc:creator>Bob</dc:creator'' @ replicate 24 0)\<rparr>"

section \<open>Content recovery (FileRecoveryPreview.tsx)\<close>

datatype ContentType = TypeXml | TypeText | TypeBinary

record SpreadsheetTable =
  table_name :: jsstring
  table_data :: "jsstring list list"

record RecoveredContent =
  rc_text :: "jsstring list"
  rc_tables :: "SpreadsheetTable list"
  rc_type :: ContentType
  rc_source :: jsstring

text \<open>
  \<open>s.trim()\<close> removes the white space and the line terminators of ECMAScript from both
  ends.
\<close>

definition isWhiteSpace :: "nat \<Rightarrow> bool" where
  "isWhiteSpace c =
     ((9 \<le> c \<and> c \<le> 13) \<or> c = 32 \<or> c = 0xA0 \<or> c = 0x1680 \<or> (0x2000 \<le> c \<and> c \<le> 0x200A) \<or>
      c = 0x2028 \<or> c = 0x2029 \<or> c = 0x202F \<or> c = 0x205F \<or> c = 0x3000 \<or> c = 0xFEFF)"

definition trim :: "jsstring \<Rightarrow> jsstring" where
  "trim s = rev (dropWhile isWhiteSpace (rev (dropWhile isWhiteSpace s)))"

definition isLetter :: "nat \<Rightarrow> bool" where
  "isLetter c = ((65 \<le> c \<and> c \<le> 90) \<or> (97 \<le> c \<and> c \<le> 122))"

definition isDigit :: "nat \<Rightarrow> bool" where
  "isDigit c = (48 \<le> c \<and> c \<le> 57)"

definition isUpper :: "nat \<Rightarrow> bool" where
  "isUpper c = (65 \<le> c \<and> c \<le> 90)"

text \<open>\<open>re.test(s)\<close> for an expression without anchors: a match at some position.\<close>

fun test_at :: "('a list \<Rightarrow> bool) \<Rightarrow> 'a list \<Rightarrow> bool" where
  "test_at here [] = here []"
| "test_at here (c # cs) = (here (c # cs) \<or> test_at here cs)"

text \<open>\<open>/[a-zA-Z]{k,}/.test(s)\<close> and \<open>/^[0-9.,-]+$/.test(s)\<close>.\<close>

definition hasLetterRun :: "nat \<Rightarrow> jsstring \<Rightarrow> bool" where
  "hasLetterRun k s = test_at (\<lambda>t. length t \<ge> k \<and> list_all isLetter (take k t)) s"

definition onlyNumberChars :: "jsstring \<Rightarrow> bool" where
  "onlyNumberChars s = (s \<noteq> [] \<and> list_all (\<lambda>c. isDigit c \<or> c = 46 \<or> c = 44 \<or> c = 45) s)"

subsection \<open>The binary path (extractTextFromBinary)\<close>

definition printableByte :: "byte \<Rightarrow> bool" where
  "printableByte b = ((b \<ge> 32 \<and> b \<le> 126) \<or> b = 9 \<or> b = 10 \<or> b = 13)"

text \<open>What the end of a run pushes onto \<open>textBlocks\<close>, lines 396 to 402 and 408 to 412.\<close>

definition closeBlock :: "byte list \<Rightarrow> jsstring list" where
  "closeBlock currentBlock =
     (if length currentBlock \<ge> 4 then
        (let blockText = trim (decode currentBlock) in
         if hasLetterRun 2 blockText \<and> \<not> onlyNumberChars blockText then [blockText] else [])
      else [])"

fun scanTextBlocks :: "byte list \<Rightarrow> byte list \<Rightarrow> jsstring list" where
  "scanTextBlocks [] currentBlock = closeBlock currentBlock"
| "scanTextBlocks (b # bs) currentBlock =
     (if printableByte b then scanTextBlocks bs (currentBlock @ [b])
      else closeBlock currentBlock @ scanTextBlocks bs [])"

text \<open>
  \<open>kept > block.length * 0.7\<close> in double arithmetic. The double nearest to 0.7 is
  \<open>6305039478318694 / 2^53\<close>; the product with the length is rounded to 53 significant
  bits, ties to even, and compared with the integer \<open>kept\<close>. All quantities are in
  units of \<open>2^-53\<close>. (The rounding matters: \<open>90 * 0.7\<close> is a double below 63.)
\<close>

fun bit_length :: "nat \<Rightarrow> nat" where
  "bit_length n = (if n = 0 then 0 else Suc (bit_length (n div 2)))"

declare bit_length.simps [simp del]

definition roundToDouble :: "nat \<Rightarrow> nat" where
  "roundToDouble p =
     (let sh = bit_length p - 53 in
      if sh = 0 then p
      else
        (let q = p div 2 ^ sh; r = p mod 2 ^ sh; half = 2 ^ (sh - 1)
         in (if r > half \<or> (r = half \<and> odd q) then q + 1 else q) * 2 ^ sh))"

definition exceedsSevenTenths :: "nat \<Rightarrow> nat \<Rightarrow> bool" where
  "exceedsSevenTenths kept len = (kept * 2 ^ 53 > roundToDouble (len * 6305039478318694))"

definition controlChar :: "nat \<Rightarrow> bool" where
  "controlChar c = (c \<le> 8 \<or> c = 11 \<or> c = 12 \<or> (14 \<le> c \<and> c \<le> 31) \<or> c = 127)"

definition normalChar :: "nat \<Rightarrow> bool" where
  "normalChar c = (isLetter c \<or> isDigit c \<or> c \<in> set (asc ''.,;:'\"!? -''))"

text \<open>\<open>filter((block, index, self) => self.indexOf(block) === index)\<close> keeps first occurrences.\<close>

fun keepFirst :: "'a list \<Rightarrow> 'a list \<Rightarrow> 'a list" where
  "keepFirst seen [] = []"
| "keepFirst seen (x # xs) = (if x \<in> set seen then keepFirst seen xs else x # keepFirst (x # seen) xs)"

definition cleanBlocks :: "jsstring list \<Rightarrow> jsstring list" where
  "cleanBlocks textBlocks =
     take 40 (keepFirst []
       (filter (\<lambda>block.
          length block \<ge> 3 \<and> hasLetterRun 3 block \<and> \<not> list_ex controlChar block \<and>
          exceedsSevenTenths (length (filter normalChar block)) (length block)) textBlocks))"

text \<open>\<open>s.split(d)\<close> for a separator of one code unit.\<close>

fun split_on :: "nat \<Rightarrow> jsstring \<Rightarrow> jsstring list" where
  "split_on d [] = [[]]"
| "split_on d (c # cs) =
     (if c = d then [] # split_on d cs
      else (case split_on d cs of x # xs \<Rightarrow> (c # x) # xs | [] \<Rightarrow> [[c]]))"

definition binaryTables :: "jsstring list \<Rightarrow> SpreadsheetTable list" where
  "binaryTables cleanedBlocks =
     (let tableLines = filter (\<lambda>block.
            (9 \<in> set block \<or> 44 \<in> set block) \<and>
            (length (split_on 9 block) > 1 \<or> length (split_on 44 block) > 1)) cleanedBlocks
      in if length tableLines \<ge> 3 then
           (let delimiter = (if 9 \<in> set (hd tableLines) then 9 else 44)
            in [\<lparr>table_name = asc ''Recovered Table'',
                 table_data = map (\<lambda>line. map trim (split_on delimiter line)) tableLines\<rparr>])
         else [])"

definition extractTextFromBinary :: "byte list \<Rightarrow> RecoveredContent" where
  "extractTextFromBinary bytes =
     (let textBlocks = scanTextBlocks bytes [];
          cleanedBlocks = cleanBlocks textBlocks;
          tables = binaryTables cleanedBlocks
      in if length cleanedBlocks > 0 then
           \<lparr>rc_text = cleanedBlocks, rc_tables = tables, rc_type = TypeBinary,
            rc_source = asc ''Text recovered from binary Excel file''\<rparr>
         else
           \<lparr>rc_text = [asc ''No readable text could be recovered from this file.''],
            rc_tables = [], rc_type = TypeBinary, rc_source = asc ''Binary file analysis''\<rparr>)"

subsection \<open>The packaged-XML path (extractTextFromZip): its regular expressions\<close>

text \<open>
  \<open>tag[^>]*>\<close> at the start of \<open>s\<close>: the text after the first \<open>>\<close>. The class cannot run
  past a \<open>>\<close>, so the greedy star stops at the first one.
\<close>

definition tagOpen :: "jsstring \<Rightarrow> jsstring \<Rightarrow> jsstring option" where
  "tagOpen tag s =
     (if starts_with s tag then
        (case dropWhile (\<lambda>c. c \<noteq> 62) (drop (length tag) s) of
           [] \<Rightarrow> None
         | gt # rest \<Rightarrow> Some rest)
      else None)"

text \<open>
  \<open>pre([^x]*)post\<close>, or \<open>pre([^x]+)post\<close> when \<open>nonempty\<close> holds, where \<open>post\<close> starts
  with the excluded code unit \<open>x\<close>: the group is the whole run up to the first \<open>x\<close>.
\<close>

definition delimited ::
  "bool \<Rightarrow> jsstring \<Rightarrow> nat \<Rightarrow> jsstring \<Rightarrow> jsstring \<Rightarrow> (jsstring \<times> jsstring) option" where
  "delimited nonempty pre x post s =
     (if starts_with s pre then
        (let t = drop (length pre) s;
             g = takeWhile (\<lambda>c. c \<noteq> x) t;
             u = dropWhile (\<lambda>c. c \<noteq> x) t
         in if (if nonempty then g \<noteq> [] else True) \<and> starts_with u post then Some (g, drop (length post) u)
            else None)
      else None)"

text \<open>\<open>/<sheetData>([\s\S]*?)<\/sheetData>/g\<close>\<close>

definition sheetDataHere :: "jsstring \<Rightarrow> (jsstring \<times> jsstring) option" where
  "sheetDataHere s =
     (if starts_with s (asc ''<sheetData>'') then
        split_first (asc ''</sheetData>'') (drop (length (asc ''<sheetData>'')) s)
      else None)"

text \<open>\<open>/<row[^>]*>([\s\S]*?)<\/row>/g\<close>\<close>

definition rowHere :: "jsstring \<Rightarrow> (jsstring \<times> jsstring) option" where
  "rowHere s =
     (case tagOpen (asc ''<row'') s of
        None \<Rightarrow> None
      | Some r \<Rightarrow> split_first (asc ''</row>'') r)"

text \<open>\<open>/<c[^>]*><v>([^<]*)<\/v><\/c>/g\<close>, and with \<open>[^<]+\<close> when \<open>nonempty\<close> holds (line 291).\<close>

definition cellHere :: "bool \<Rightarrow> jsstring \<Rightarrow> (jsstring \<times> jsstring) option" where
  "cellHere nonempty s =
     (case tagOpen (asc ''<c'') s of
        None \<Rightarrow> None
      | Some r \<Rightarrow> delimited nonempty (asc ''<v>'') 60 (asc ''</v></c>'') r)"

text \<open>
  The common prefix \<open><c r="([A-Z]+)(\d+)"[^>]*\<close> of the three cell expressions of the
  fallback: the column letters, the row digits, the run \<open>[^>]*\<close> up to the first
  \<open>>\<close>, and the text from that \<open>>\<close> on.
\<close>

definition cellRef :: "jsstring \<Rightarrow> (jsstring \<times> jsstring \<times> jsstring \<times> jsstring) option" where
  "cellRef s =
     (if starts_with s (asc ''<c r=\"'') then
        (let r = drop (length (asc ''<c r=\"'')) s;
             col = takeWhile isUpper r;
             r1 = dropWhile isUpper r;
             digits = takeWhile isDigit r1;
             r2 = dropWhile isDigit r1
         in if col \<noteq> [] \<and> digits \<noteq> [] \<and> starts_with r2 [34] then
              Some (col, digits, takeWhile (\<lambda>c. c \<noteq> 62) (drop 1 r2),
                    dropWhile (\<lambda>c. c \<noteq> 62) (drop 1 r2))
            else None)
      else None)"

text \<open>
  \<open>/<c r="([A-Z]+)(\d+)"[^>]*t="s"><v>(\d+)<\/v><\/c>/g\<close>: the run before the first
  \<open>>\<close> has to end in \<open>t="s"\<close>.
\<close>

definition sharedHere :: "jsstring \<Rightarrow> ((jsstring \<times> jsstring \<times> jsstring) \<times> jsstring) option" where
  "sharedHere s =
     (case cellRef s of
        None \<Rightarrow> None
      | Some (col, digits, attrs, r) \<Rightarrow>
          if ends_with attrs (asc ''t=\"s\"'') \<and> starts_with r (asc ''><v>'') then
            (let t = drop (length (asc ''><v>'')) r;
                 v = takeWhile isDigit t;
                 u = dropWhile isDigit t
             in if v \<noteq> [] \<and> starts_with u (asc ''</v></c>'') then
                  Some ((col, digits, v), drop (length (asc ''</v></c>'')) u)
                else None)
          else None)"

text \<open>\<open>/<c r="([A-Z]+)(\d+)"[^>]*><is><t>([^<]*)<\/t><\/is><\/c>/g\<close>\<close>

definition inlineHere :: "jsstring \<Rightarrow> ((jsstring \<times> jsstring \<times> jsstring) \<times> jsstring) option" where
  "inlineHere s =
     (case cellRef s of
        None \<Rightarrow> None
      | Some (col, digits, attrs, r) \<Rightarrow>
          (case delimited False (asc ''><is><t>'') 60 (asc ''</t></is></c>'') r of
             None \<Rightarrow> None
           | Some (v, rest) \<Rightarrow> Some ((col, digits, v), rest)))"

text \<open>\<open>/<c r="([A-Z]+)(\d+)"[^>]*><v>([^<]*)<\/v><\/c>/g\<close>\<close>

definition numericHere :: "jsstring \<Rightarrow> ((jsstring \<times> jsstring \<times> jsstring) \<times> jsstring) option" where
  "numericHere s =
     (case cellRef s of
        None \<Rightarrow> None
      | Some (col, digits, attrs, r) \<Rightarrow>
          (case delimited False (asc ''><v>'') 60 (asc ''</v></c>'') r of
             None \<Rightarrow> None
           | Some (v, rest) \<Rightarrow> Some ((col, digits, v), rest)))"

text \<open>\<open>/<sst[^>]*>([\s\S]*?)<\/sst>/\<close>\<close>

definition sstHere :: "jsstring \<Rightarrow> (jsstring \<times> jsstring) option" where
  "sstHere s =
     (case tagOpen (asc ''<sst'') s of
        None \<Rightarrow> None
      | Some r \<Rightarrow> split_first (asc ''</sst>'') r)"

text \<open>\<open><t[^>]*>([^<]*)<\/t>\<close>, and with \<open>[^<]+\<close> when \<open>nonempty\<close> holds (line 281).\<close>

definition tHere :: "bool \<Rightarrow> jsstring \<Rightarrow> (jsstring \<times> jsstring) option" where
  "tHere nonempty s =
     (case tagOpen (asc ''<t'') s of
        None \<Rightarrow> None
      | Some r \<Rightarrow>
          (let g = takeWhile (\<lambda>c. c \<noteq> 60) r; u = dropWhile (\<lambda>c. c \<noteq> 60) r
           in if (if nonempty then g \<noteq> [] else True) \<and> starts_with u (asc ''</t>'') then
                Some (g, drop (length (asc ''</t>'')) u)
              else None))"

text \<open>
  \<open>/<si>[\s\S]*?<t[^>]*>([^<]*)<\/t>[\s\S]*?<\/si>/g\<close>: after \<open><si>\<close> the first lazy
  star takes the first position at which a \<open><t ...>\<close> element with a later \<open></si>\<close>
  is found, and the second lazy star stops at the first \<open></si>\<close> after it.
\<close>

definition siHere :: "jsstring \<Rightarrow> (jsstring \<times> jsstring) option" where
  "siHere s =
     (if starts_with s (asc ''<si>'') then
        first_match (\<lambda>t.
          case tHere False t of
            None \<Rightarrow> None
          | Some (g, rest) \<Rightarrow>
              (case split_first (asc ''</si>'') rest of
                 None \<Rightarrow> None
               | Some (skipped, rest') \<Rightarrow> Some (g, rest')))
          (drop (length (asc ''<si>'')) s)
      else None)"

subsection \<open>The packaged-XML path: document properties and sheet names (lines 67 to 109)\<close>

definition docProp :: "string \<Rightarrow> jsstring \<Rightarrow> jsstring \<Rightarrow> jsstring \<Rightarrow> jsstring list" where
  "docProp label opening closing fullText =
     (case first_match (delimited True opening 60 closing) fullText of
        None \<Rightarrow> []
      | Some (g, rest) \<Rightarrow> [asc label @ g])"

definition docProps :: "jsstring \<Rightarrow> jsstring list" where
  "docProps fullText =
     docProp ''Creator: '' (asc ''<dc:creator>'') (asc ''</dc:creator>'') fullText @
     docProp ''Last modified by: '' (asc ''<cp:lastModifiedBy>'') (asc ''</cp:lastModifiedBy>'') fullText @
     docProp ''Title: '' (asc ''<dc:title>'') (asc ''</dc:title>'') fullText"

text \<open>The names matched by \<open>/<sheet name="([^"]+)"/g\<close>.\<close>

definition sheetNamesOf :: "jsstring \<Rightarrow> jsstring list" where
  "sheetNamesOf fullText = all_matches (delimited True (asc ''<sheet name=\"'') 34 [34]) fullText"

definition worksheetNames :: "jsstring \<Rightarrow> jsstring list" where
  "worksheetNames fullText = map (\<lambda>sheetName. asc ''Sheet: '' @ sheetName) (sheetNamesOf fullText)"

text \<open>
  For every sheet name the source builds a regular expression around the name with
  \<open>new RegExp\<close> and looks up a relationship id that nothing reads afterwards. The
  constructor throws when the name does not make a well-formed pattern; whether it does
  is a matter of the engine's pattern grammar and is a parameter here: \<open>regexpError\<close>
  gives the message for a pattern source the constructor refuses.
\<close>

definition sheetIdPattern :: "jsstring \<Rightarrow> jsstring" where
  "sheetIdPattern sheetName =
     asc ''<sheet[^>]*name=\"'' @ sheetName @ asc ''\"[^>]*r:id=\"([^\"]+)\"''"

definition sheetIdError :: "(jsstring \<Rightarrow> jsstring option) \<Rightarrow> jsstring \<Rightarrow> jsstring option" where
  "sheetIdError regexpError fullText =
     first_match (\<lambda>names. case names of [] \<Rightarrow> None | n # ns \<Rightarrow> regexpError (sheetIdPattern n))
       (sheetNamesOf fullText)"

subsection \<open>The packaged-XML path: rows and cells of the sheet data (lines 114 to 160)\<close>

text \<open>What one match of the row expression pushes onto \<open>tableData\<close>.\<close>

definition extractRow :: "jsstring \<Rightarrow> jsstring list list" where
  "extractRow rowContent =
     (if rowContent \<noteq> [] then
        (let rowData = all_matches (cellHere False) rowContent;
             hasContent = list_ex (\<lambda>v. v \<noteq> [] \<and> length (trim v) > 0) rowData
         in if hasContent \<and> length rowData > 0 then [rowData] else [])
      else [])"

definition extractRows :: "jsstring \<Rightarrow> jsstring list list" where
  "extractRows sheetData = concat (map extractRow (all_matches rowHere sheetData))"

text \<open>
  The outer loop over the matches of the sheet data expression; \<open>tableCount\<close> is the
  number of tables pushed so far, and the loop ends with the first match that finds it
  at 3.
\<close>

fun sheetTables :: "jsstring list \<Rightarrow> nat \<Rightarrow> SpreadsheetTable list" where
  "sheetTables [] tableCount = []"
| "sheetTables (sheetData # later) tableCount =
     (if tableCount < 3 then
        (if sheetData \<noteq> [] then
           (let tableData = extractRows sheetData in
            if length tableData > 0 then
              \<lparr>table_name = asc ''Sheet '' @ show_nat (tableCount + 1), table_data = tableData\<rparr> #
              sheetTables later (tableCount + 1)
            else sheetTables later tableCount)
         else sheetTables later tableCount)
      else [])"

definition sheetDataTables :: "jsstring \<Rightarrow> SpreadsheetTable list" where
  "sheetDataTables fullText = sheetTables (all_matches sheetDataHere fullText) 0"

subsection \<open>The packaged-XML path: shared strings and cell references (lines 162 to 267)\<close>

text \<open>
  Row numbers and string indices are numbers of the engine. \<open>parseInt\<close> of a run of
  digits is a double: the integer itself below \<open>2^53\<close>, a rounded integer above, and
  \<open>Infinity\<close> from about 309 digits on. A template string and \<open>toString\<close> print a
  number with the engine's number-to-string conversion, which writes the shortest digits
  that read back as the same double. ECMA-262 leaves a part of both conversions to the
  engine (the digits after the 20th in \<open>parseInt\<close>, the last digit in the conversion to a
  string), so the two are parameters of the model: \<open>parseInt\<close> takes a run of digits to
  a natural number or infinity, \<open>numberToString\<close> prints one.
\<close>

record Engine =
  parseInt :: "jsstring \<Rightarrow> enat"
  numberToString :: "enat \<Rightarrow> jsstring"

text \<open>
  The entries of the object \<open>cellData\<close>, kept as an association list in the order of
  first insertion, under the key \<open>`${colRef}${rowRef}`\<close>, where \<open>rowRef\<close> is the number
  that \<open>parseInt\<close> made of the row digits.
\<close>

record CellEntry =
  cell_row :: enat
  cell_col :: jsstring
  cell_value :: jsstring

definition cellKey :: "Engine \<Rightarrow> jsstring \<Rightarrow> jsstring \<Rightarrow> jsstring" where
  "cellKey engine colRef digits = colRef @ numberToString engine (parseInt engine digits)"

definition putCell ::
  "Engine \<Rightarrow> (jsstring \<times> CellEntry) list \<Rightarrow> jsstring \<times> jsstring \<times> jsstring \<Rightarrow>
   (jsstring \<times> CellEntry) list" where
  "putCell engine cellData m =
     (case m of (colRef, digits, cellValue) \<Rightarrow>
        AList.update (cellKey engine colRef digits)
          \<lparr>cell_row = parseInt engine digits, cell_col = colRef, cell_value = cellValue\<rparr>
          cellData)"

text \<open>
  The first pass stores a cell only when its index is below the number of shared
  strings (an index parsed from digits is never \<open>NaN\<close>).
\<close>

definition putShared ::
  "Engine \<Rightarrow> jsstring list \<Rightarrow> (jsstring \<times> CellEntry) list \<Rightarrow>
   jsstring \<times> jsstring \<times> jsstring \<Rightarrow> (jsstring \<times> CellEntry) list" where
  "putShared engine sharedStrings cellData m =
     (case m of (colRef, digits, index) \<Rightarrow>
        (let stringIndex = parseInt engine index in
         if stringIndex < enat (length sharedStrings) then
           AList.update (cellKey engine colRef digits)
             \<lparr>cell_row = parseInt engine digits, cell_col = colRef,
              cell_value = sharedStrings ! the_enat stringIndex\<rparr> cellData
         else cellData))"

text \<open>The three passes over the whole text: shared strings, inline strings, raw values.\<close>

definition collectCells ::
  "Engine \<Rightarrow> jsstring list \<Rightarrow> jsstring \<Rightarrow> (jsstring \<times> CellEntry) list" where
  "collectCells engine sharedStrings fullText =
     foldl (putCell engine)
       (foldl (putCell engine)
          (foldl (putShared engine sharedStrings) [] (all_matches sharedHere fullText))
          (all_matches inlineHere fullText))
       (all_matches numericHere fullText)"

definition sharedStringList :: "jsstring \<Rightarrow> jsstring list" where
  "sharedStringList stringTable = filter (\<lambda>s. s \<noteq> []) (all_matches siHere stringTable)"

text \<open>
  The table built from \<open>cellData\<close>: the distinct row numbers in numeric order, the
  distinct column letters in the order of their code units, and for every row and column
  the value found under the key printed from them.
\<close>

definition cellTable :: "Engine \<Rightarrow> (jsstring \<times> CellEntry) list \<Rightarrow> SpreadsheetTable list" where
  "cellTable engine cellData =
     (if length cellData > 0 then
        (let rows = sort (remdups (map (\<lambda>kv. cell_row (snd kv)) cellData));
             cols = sort (remdups (map (\<lambda>kv. cell_col (snd kv)) cellData))
         in if length rows > 0 \<and> length cols > 0 then
              [\<lparr>table_name = asc ''Recovered Spreadsheet'',
                table_data =
                  ([] # cols) #
                  map (\<lambda>row. numberToString engine row #
                         map (\<lambda>col. case map_of cellData (col @ numberToString engine row) of
                                      None \<Rightarrow> []
                                    | Some cell \<Rightarrow> cell_value cell) cols) rows\<rparr>]
            else [])
      else [])"

definition sharedStringTables :: "Engine \<Rightarrow> jsstring \<Rightarrow> SpreadsheetTable list" where
  "sharedStringTables engine fullText =
     (case first_match sstHere fullText of
        None \<Rightarrow> []
      | Some (stringTable, rest) \<Rightarrow>
          if stringTable \<noteq> [] then
            cellTable engine (collectCells engine (sharedStringList stringTable) fullText)
          else [])"

subsection \<open>The packaged-XML path: flat text (lines 279 to 378)\<close>

definition stringValues :: "jsstring \<Rightarrow> jsstring list" where
  "stringValues fullText =
     map trim (filter (\<lambda>g. g \<noteq> [] \<and> length (trim g) > 0) (all_matches (tHere True) fullText))"

definition cellValues :: "jsstring \<Rightarrow> jsstring list" where
  "cellValues fullText =
     filter (\<lambda>g. length g > 0 \<and> (length g > 3 \<or> list_ex isLetter g))
       (all_matches (cellHere True) fullText)"

definition allContent :: "jsstring \<Rightarrow> jsstring list" where
  "allContent fullText =
     docProps fullText @ worksheetNames fullText @
     take 50 (filter (\<lambda>str. length str > 1 \<and> 60 \<notin> set str \<and> 62 \<notin> set str \<and>
                             list_ex isLetter str \<and> \<not> onlyNumberChars str) (stringValues fullText)) @
     take 20 (filter (\<lambda>val. length val > 1 \<and> list_ex isLetter val \<and> \<not> onlyNumberChars val)
                (cellValues fullText))"

text \<open>
  The \<open>forEach\<close> of lines 330 to 347 with its three variables, and the chunk left over
  at line 349.
\<close>

fun chunkLoop ::
  "jsstring list \<Rightarrow> jsstring list list \<Rightarrow> jsstring list \<Rightarrow> bool \<Rightarrow> jsstring list list" where
  "chunkLoop [] chunks currentChunk lastWasEmpty =
     (if length currentChunk > 0 then chunks @ [currentChunk] else chunks)"
| "chunkLoop (v # vs) chunks currentChunk lastWasEmpty =
     (if length (trim v) = 0 then
        (if \<not> lastWasEmpty then
           (if length currentChunk > 0 then chunkLoop vs (chunks @ [currentChunk]) [] True
            else chunkLoop vs chunks currentChunk True)
         else chunkLoop vs chunks currentChunk lastWasEmpty)
      else
        (if length (currentChunk @ [v]) \<ge> 10 then chunkLoop vs (chunks @ [currentChunk @ [v]]) [] False
         else chunkLoop vs chunks (currentChunk @ [v]) False))"

definition recoveredData :: "jsstring \<Rightarrow> SpreadsheetTable list" where
  "recoveredData fullText =
     (if length (stringValues fullText) > 0 \<or> length (cellValues fullText) > 0 then
        (let chunks = chunkLoop (stringValues fullText @ cellValues fullText) [] [] False in
         if length chunks > 0 then
           (let largestChunk =
                  foldl (\<lambda>prev current. if length current > length prev then current else prev)
                    (hd chunks) chunks
            in if length largestChunk \<ge> 3 then
                 [\<lparr>table_name = asc ''Recovered Data'',
                   table_data = [asc ''Value''] # map (\<lambda>v. [v]) largestChunk\<rparr>]
               else [])
         else [])
      else [])"

subsection \<open>The two recovery functions and their dispatch\<close>

text \<open>
  \<open>extractTextFromZip\<close>: \<open>Inl\<close> is the exception of a refused \<open>new RegExp\<close>, thrown in
  the loop over the sheet names before any table is looked for.
\<close>

definition extractTextFromZip ::
  "Engine \<Rightarrow> (jsstring \<Rightarrow> jsstring option) \<Rightarrow> byte list \<Rightarrow> jsstring + RecoveredContent" where
  "extractTextFromZip engine regexpError bytes =
     (let fullText = decode bytes in
      case sheetIdError regexpError fullText of
        Some error \<Rightarrow> Inl error
      | None \<Rightarrow>
          (let tables0 = sheetDataTables fullText;
               tables = (if length tables0 = 0 then sharedStringTables engine fullText else tables0)
           in if length tables > 0 then
                Inr \<lparr>rc_text = docProps fullText @ worksheetNames fullText, rc_tables = tables,
                     rc_type = TypeXml,
                     rc_source = asc ''Spreadsheet content recovered from Excel file''\<rparr>
              else
                Inr \<lparr>rc_text = (if length (allContent fullText) > 0 then allContent fullText
                                else [asc ''No readable text content found'']),
                     rc_tables = recoveredData fullText, rc_type = TypeXml,
                     rc_source = asc ''Content extracted from Excel file''\<rparr>))"

text \<open>
  \<open>attemptContentRecovery\<close>: the value of \<open>recoveredContent\<close> after the call, \<open>None\<close>
  when an exception was caught and logged.
\<close>

definition attemptContentRecovery ::
  "Engine \<Rightarrow> (jsstring \<Rightarrow> jsstring option) \<Rightarrow> File \<Rightarrow> RecoveredContent option" where
  "attemptContentRecovery engine regexpError file =
     (case file_arrayBuffer file of
        Inl error \<Rightarrow> None
      | Inr bytes \<Rightarrow>
          if hasValidXlsxSignature bytes then
            (case extractTextFromZip engine regexpError bytes of
               Inl error \<Rightarrow> None
             | Inr content \<Rightarrow> Some content)
          else Some (extractTextFromBinary bytes))"

subsection \<open>The numbers of a current engine\<close>

text \<open>
  The two conversions as the current engines compute them, for concrete runs.
  \<open>parseInt\<close> reads the digits as an integer and rounds it to the nearest double, ties
  to even, and to \<open>Infinity\<close> when the rounded value reaches \<open>2^1024\<close>. The conversion to
  a string looks for the integer with the fewest significant digits that rounds to the
  same double, the one nearest to it when there are two, and prints it in full when it
  has at most 21 digits and with an exponent otherwise. Every number below \<open>2^53\<close> is
  parsed exactly and printed in full.
\<close>

definition decimalValue :: "jsstring \<Rightarrow> nat" where
  "decimalValue digits = foldl (\<lambda>a c. 10 * a + (c - 48)) 0 digits"

definition toDouble :: "nat \<Rightarrow> enat" where
  "toDouble n = (let d = roundToDouble n in if d < 2 ^ 1024 then enat d else \<infinity>)"

definition shortestDecimal :: "nat \<Rightarrow> nat" where
  "shortestDecimal x =
     (let n = length (show_nat x);
          candidates =
            concat (map (\<lambda>k. let p = 10 ^ (n - k); lo = (x div p) * p; hi = lo + p
                             in filter (\<lambda>v. roundToDouble v = x)
                                  (if x - lo \<le> hi - x then [lo, hi] else [hi, lo]))
                      [1 ..< n + 1])
      in case candidates of [] \<Rightarrow> x | v # vs \<Rightarrow> v)"

definition printNumber :: "enat \<Rightarrow> jsstring" where
  "printNumber x =
     (case x of
        \<infinity> \<Rightarrow> asc ''Infinity''
      | enat m \<Rightarrow>
          (let digits = show_nat (shortestDecimal m) in
           if length digits \<le> 21 then digits
           else
             (let s = rev (dropWhile (\<lambda>c. c = 48) (rev digits))
              in take 1 s @ (if length s > 1 then asc ''.'' @ drop 1 s else []) @
                 asc ''e+'' @ show_nat (length digits - 1))))"

definition currentEngine :: Engine where
  "currentEngine =
     \<lparr>parseInt = (\<lambda>digits. toDouble (decimalValue digits)), numberToString = printNumber\<rparr>"

subsection \<open>Well-formed sheet data, as input of the row and cell extraction\<close>













text \<open>
  Two texts with a shared-string table and cell A1 pointing into it, for concrete runs;
  the second has another cell A1 after it.
\<close>

definition sharedOnce :: jsstring where
  "sharedOnce = asc ''<sst><si><t>Hello</t></si></sst><c r=\"A1\" t=\"s\"><v>0</v></c>''"

definition sharedTwice :: jsstring where
  "sharedTwice =
     asc ''<sst><si><t>Hello</t></si></sst><c r=\"A1\" t=\"s\"><v>0</v></c><c r=\"A1\"><v>99</v></c>''"


section \<open>Properties of the structural prober\<close>

lemma byteAt_Some: "byteAt bs i = Some b \<longleftrightarrow> i < length bs \<and> bs ! i = b"
  by (auto simp: byteAt_def)

lemma take4_nth:
  assumes "take 4 bytes = [a, b, c, d]"
  shows "length bytes \<ge> 4 \<and> bytes ! 0 = a \<and> bytes ! 1 = b \<and> bytes ! 2 = c \<and> bytes ! 3 = d"
proof -
  have "length (take 4 bytes) = 4" using assms by simp
  then have len: "length bytes \<ge> 4" by simp
  have "\<And>k. k < 4 \<Longrightarrow> bytes ! k = [a, b, c, d] ! k"
    using assms by (metis nth_take)
  from this [of 0] this [of 1] this [of 2] this [of 3] len show ?thesis by simp
qed

lemma take3_nth:
  assumes "take 3 bytes = [a, b, c]"
  shows "length bytes \<ge> 3 \<and> bytes ! 0 = a \<and> bytes ! 1 = b \<and> bytes ! 2 = c"
proof -
  have "length (take 3 bytes) = 3" using assms by simp
  then have len: "length bytes \<ge> 3" by simp
  have "\<And>k. k < 3 \<Longrightarrow> bytes ! k = [a, b, c] ! k"
    using assms by (metis nth_take)
  from this [of 0] this [of 1] this [of 2] len show ?thesis by simp
qed

lemma sig_take4:
  "take 4 bytes = [0x50, 0x4B, 0x03, 0x04] \<Longrightarrow> hasValidXlsxSignature bytes"
  using take4_nth [of bytes "0x50" "0x4B" "0x03" "0x04"]
  by (auto simp: hasValidXlsxSignature_def byteAt_def)

lemma eocdAt_take:
  assumes "eocdAt bytes i"
  shows "take 4 (drop i bytes) = [0x50, 0x4B, 0x05, 0x06]"
proof -
  from assms have len: "i + 3 < length bytes"
    and b: "bytes ! i = 0x50" "bytes ! (i + 1) = 0x4B" "bytes ! (i + 2) = 0x05" "bytes ! (i + 3) = 0x06"
    by (auto simp: eocdAt_def byteAt_Some)
  have "length (take 4 (drop i bytes)) = 4" using len by simp
  moreover have "\<And>k. k < 4 \<Longrightarrow> take 4 (drop i bytes) ! k = [0x50, 0x4B, 0x05, 0x06::byte] ! k"
  proof -
    fix k :: nat assume "k < 4"
    then consider "k = 0" | "k = 1" | "k = 2" | "k = 3" by linarith
    then show "take 4 (drop i bytes) ! k = [0x50, 0x4B, 0x05, 0x06::byte] ! k"
      using len b by cases (simp_all add: add.commute)
  qed
  ultimately show ?thesis by (intro nth_equalityI) auto
qed

lemma scanCentralDir_none:
  "(\<forall>i. take 4 (drop i bytes) \<noteq> [0x50, 0x4B, 0x05, 0x06]) \<Longrightarrow> \<not> scanCentralDir bytes n"
  by (induction n) (auto dest: eocdAt_take)

text \<open>
  C5. A buffer that starts with 50 4B 03 04 and holds the sequence 50 4B 05 06 at no
  offset: the prober returns (it does not throw, whatever the length, below 22 bytes
  included), and its findings start with the valid-signature line followed by
  "ZIP Central Directory is missing or corrupt." and the inference that the file was
  not closed properly or was truncated.
\<close>

theorem central_directory_missing:
  assumes "file_arrayBuffer file = Inr bytes"
    and "take 4 bytes = [0x50, 0x4B, 0x03, 0x04]"
    and "\<forall>i. take 4 (drop i bytes) \<noteq> [0x50, 0x4B, 0x05, 0x06]"
  shows "\<exists>rest. performDeepExcelAnalysis file =
           Inr (asc ''File has a valid XLSX/ZIP signature.'' #
                asc ''ZIP Central Directory is missing or corrupt.'' #
                asc ''This indicates the file was not properly closed when saved or was truncated.'' #
                rest)"
proof -
  have sig: "hasValidXlsxSignature bytes" using assms(2) by (rule sig_take4)
  have "\<not> hasCentralDir bytes"
    using scanCentralDir_none [OF assms(3)] by (simp add: hasCentralDir_def)
  then show ?thesis
    using sig assms(1)
    by (simp add: performDeepExcelAnalysis_def deepIssues_def formatDetection_def
        formatIdentification_def zipStructure_def)
qed

theorem central_directory_missing_witness:
  "take 4 [0x50, 0x4B, 0x03, 0x04 :: byte] = [0x50, 0x4B, 0x03, 0x04] \<and>
   (\<forall>i. take 4 (drop i [0x50, 0x4B, 0x03, 0x04 :: byte]) \<noteq> [0x50, 0x4B, 0x05, 0x06]) \<and>
   (\<exists>rest. performDeepExcelAnalysis
       \<lparr>file_name = asc ''a.xlsx'', file_size = 4, file_lastModified = 0,
        file_arrayBuffer = Inr [0x50, 0x4B, 0x03, 0x04]\<rparr> =
      Inr (asc ''File has a valid XLSX/ZIP signature.'' #
           asc ''ZIP Central Directory is missing or corrupt.'' #
           asc ''This indicates the file was not properly closed when saved or was truncated.'' #
           rest))"
proof -
  have h: "\<forall>i. take 4 (drop i [0x50, 0x4B, 0x03, 0x04 :: byte]) \<noteq> [0x50, 0x4B, 0x05, 0x06]"
  proof
    fix i :: nat
    show "take 4 (drop i [0x50, 0x4B, 0x03, 0x04 :: byte]) \<noteq> [0x50, 0x4B, 0x05, 0x06]"
    proof (cases i)
      case 0
      then show ?thesis by simp
    next
      case (Suc j)
      have "length (take 4 (drop (Suc j) [0x50, 0x4B, 0x03, 0x04 :: byte])) \<le> 3" by simp
      moreover have "length [0x50, 0x4B, 0x05, 0x06 :: byte] = 4" by simp
      ultimately have "take 4 (drop (Suc j) [0x50, 0x4B, 0x03, 0x04 :: byte]) \<noteq> [0x50, 0x4B, 0x05, 0x06]"
        by (metis numeral_le_iff semiring_norm(69) semiring_norm(72))
      then show ?thesis using Suc by simp
    qed
  qed
  show ?thesis
    using h central_directory_missing
      [of "\<lparr>file_name = asc ''a.xlsx'', file_size = 4, file_lastModified = 0,
            file_arrayBuffer = Inr [0x50, 0x4B, 0x03, 0x04]\<rparr>" "[0x50, 0x4B, 0x03, 0x04]"]
    by simp
qed

text \<open>
  The truncation test sits inside the test for a suspiciously small file. At 2000 bytes
  a buffer with the ZIP signature and no byte 0x50 among its last 100 is not flagged.
\<close>

lemma truncated_only_small:
  assumes "\<not> (100 < length bytes \<and> length bytes < 2000)"
  shows "asc ''File appears to be truncated (premature end of file).'' \<notin> set (deepIssues fname bytes)"
  using assms
  by (auto simp: deepIssues_def formatDetection_def formatIdentification_def zipStructure_def
      sizeConsistency_def passwordProtection_def Let_def asc_def)

theorem truncated_counterexample:
  "take 4 ([0x50, 0x4B, 0x03, 0x04] @ replicate 1996 (0::byte)) = [0x50, 0x4B, 0x03, 0x04] \<and>
   0x50 \<notin> set (drop (length ([0x50, 0x4B, 0x03, 0x04] @ replicate 1996 (0::byte)) - 100)
                  ([0x50, 0x4B, 0x03, 0x04] @ replicate 1996 (0::byte))) \<and>
   performDeepExcelAnalysis
       \<lparr>file_name = asc ''a.xlsx'', file_size = 2000, file_lastModified = 0,
        file_arrayBuffer = Inr ([0x50, 0x4B, 0x03, 0x04] @ replicate 1996 0)\<rparr> =
     Inr (deepIssues (asc ''a.xlsx'') ([0x50, 0x4B, 0x03, 0x04] @ replicate 1996 0)) \<and>
   asc ''File appears to be truncated (premature end of file).'' \<notin>
     set (deepIssues (asc ''a.xlsx'') ([0x50, 0x4B, 0x03, 0x04] @ replicate 1996 0))"
proof -
  have "(0x50::byte) \<notin> set (replicate 1900 0)" by simp
  then show ?thesis
    using truncated_only_small [of "[0x50, 0x4B, 0x03, 0x04] @ replicate 1996 (0::byte)" "asc ''a.xlsx''"]
    by (simp add: performDeepExcelAnalysis_def)
qed

text \<open>
  C7, as the code has it. A buffer that starts with 50 4B 03 04 and has no byte 0x50
  among its last 100 bytes gets the finding "File appears to be truncated (premature end
  of file)." exactly when it has more than 100 and fewer than 2000 bytes.
\<close>

theorem truncated_when_small:
  assumes "file_arrayBuffer file = Inr bytes"
    and "take 4 bytes = [0x50, 0x4B, 0x03, 0x04]"
    and "0x50 \<notin> set (drop (length bytes - 100) bytes)"
  shows "\<exists>issues. performDeepExcelAnalysis file = Inr issues \<and>
           (asc ''File appears to be truncated (premature end of file).'' \<in> set issues) =
           (100 < length bytes \<and> length bytes < 2000)"
proof (cases "100 < length bytes \<and> length bytes < 2000")
  case True
  have sig: "hasValidXlsxSignature bytes" using assms(2) by (rule sig_take4)
  have "\<not> includesFrom bytes 0x50 (int (length bytes) - 100)"
    using True assms(3) by (simp add: includesFrom_def nat_diff_distrib')
  then have "asc ''File appears to be truncated (premature end of file).'' \<in> set (sizeConsistency bytes)"
    using sig True by (simp add: sizeConsistency_def)
  then show ?thesis using assms(1) True
    by (simp add: performDeepExcelAnalysis_def deepIssues_def)
next
  case False
  then show ?thesis
    using assms(1) truncated_only_small [of bytes "file_name file"]
    by (simp add: performDeepExcelAnalysis_def)
qed

theorem truncated_when_small_witness:
  "take 4 ([0x50, 0x4B, 0x03, 0x04] @ replicate 100 (0::byte)) = [0x50, 0x4B, 0x03, 0x04] \<and>
   0x50 \<notin> set (drop (length ([0x50, 0x4B, 0x03, 0x04] @ replicate 100 (0::byte)) - 100)
                  ([0x50, 0x4B, 0x03, 0x04] @ replicate 100 (0::byte))) \<and>
   (\<exists>issues. performDeepExcelAnalysis
       \<lparr>file_name = asc ''a.xlsx'', file_size = 104, file_lastModified = 0,
        file_arrayBuffer = Inr ([0x50, 0x4B, 0x03, 0x04] @ replicate 100 0)\<rparr> = Inr issues \<and>
      asc ''File appears to be truncated (premature end of file).'' \<in> set issues)"
  using truncated_when_small
    [of "\<lparr>file_name = asc ''a.xlsx'', file_size = 104, file_lastModified = 0,
          file_arrayBuffer = Inr ([0x50, 0x4B, 0x03, 0x04] @ replicate 100 0)\<rparr>"
        "[0x50, 0x4B, 0x03, 0x04] @ replicate 100 (0::byte)"]
  by simp

text \<open>
  The checks for a foreign format are made only for buffers of at least 4 bytes: the
  buffer of exactly the 3 bytes FF D8 FF gets the no-signature line alone.
\<close>

theorem jpeg_counterexample:
  "take 3 [0xFF, 0xD8, 0xFF :: byte] = [0xFF, 0xD8, 0xFF] \<and>
   performDeepExcelAnalysis
     \<lparr>file_name = asc ''photo.xlsx'', file_size = 3, file_lastModified = 0,
      file_arrayBuffer = Inr [0xFF, 0xD8, 0xFF]\<rparr>
   = Inr [asc ''File does not have a valid Excel signature.'']"
  by (simp add: performDeepExcelAnalysis_def deepIssues_def formatDetection_def
      formatIdentification_def sizeConsistency_def passwordProtection_def
      hasValidXlsxSignature_def hasValidXlsSignature_def)

text \<open>
  C8, as the code has it. The prober returns for every buffer that can be read. A buffer
  shorter than 4 bytes, whatever its bytes, gets the no-signature line alone; a buffer
  of 4 bytes or more that starts with FF D8 FF gets the JPEG line right after the
  no-signature line.
\<close>

theorem jpeg_detected:
  assumes "file_arrayBuffer file = Inr bytes"
  shows "if length bytes < 4 then
           performDeepExcelAnalysis file = Inr [asc ''File does not have a valid Excel signature.'']
         else if take 3 bytes = [0xFF, 0xD8, 0xFF] then
           (\<exists>rest. performDeepExcelAnalysis file =
              Inr (asc ''File does not have a valid Excel signature.'' #
                   asc ''The file appears to be a JPEG image with an Excel extension.'' # rest))
         else (\<exists>issues. performDeepExcelAnalysis file = Inr issues)"
proof (cases "length bytes < 4")
  case True
  then show ?thesis
    using assms
    by (simp add: performDeepExcelAnalysis_def deepIssues_def formatDetection_def
        formatIdentification_def sizeConsistency_def passwordProtection_def
        hasValidXlsxSignature_def hasValidXlsSignature_def)
next
  case False
  show ?thesis
  proof (cases "take 3 bytes = [0xFF, 0xD8, 0xFF]")
    case True
    have b: "bytes ! 0 = 0xFF" "bytes ! 1 = 0xD8" "bytes ! 2 = 0xFF"
      using take3_nth [OF True] by auto
    have "\<not> hasValidXlsxSignature bytes" "\<not> hasValidXlsSignature bytes"
      using \<open>\<not> length bytes < 4\<close> b
      by (auto simp: hasValidXlsxSignature_def hasValidXlsSignature_def byteAt_def)
    then show ?thesis
      using \<open>\<not> length bytes < 4\<close> True b assms
      by (auto simp: performDeepExcelAnalysis_def deepIssues_def formatDetection_def
          formatIdentification_def byteAt_def)
  next
    case False
    then show ?thesis
      using \<open>\<not> length bytes < 4\<close> assms by (simp add: performDeepExcelAnalysis_def)
  qed
qed

theorem jpeg_detected_witness:
  "(\<exists>rest. performDeepExcelAnalysis
       \<lparr>file_name = asc ''photo.xlsx'', file_size = 4, file_lastModified = 0,
        file_arrayBuffer = Inr [0xFF, 0xD8, 0xFF, 0xE0]\<rparr> =
      Inr (asc ''File does not have a valid Excel signature.'' #
           asc ''The file appears to be a JPEG image with an Excel extension.'' # rest)) \<and>
   performDeepExcelAnalysis
       \<lparr>file_name = asc ''a.xlsx'', file_size = 2, file_lastModified = 0,
        file_arrayBuffer = Inr [0x50, 0x4B]\<rparr> =
      Inr [asc ''File does not have a valid Excel signature.'']"
  using jpeg_detected
    [of "\<lparr>file_name = asc ''photo.xlsx'', file_size = 4, file_lastModified = 0,
          file_arrayBuffer = Inr [0xFF, 0xD8, 0xFF, 0xE0]\<rparr>" "[0xFF, 0xD8, 0xFF, 0xE0]"]
    jpeg_detected
    [of "\<lparr>file_name = asc ''a.xlsx'', file_size = 2, file_lastModified = 0,
          file_arrayBuffer = Inr [0x50, 0x4B]\<rparr>" "[0x50, 0x4B]"]
  by simp

section \<open>Properties of the corruption diagnosis\<close>

lemma replicate_numeral_Cons: "replicate (numeral k) x = x # replicate (pred_numeral k) x"
  by (simp add: numeral_eq_Suc)

text \<open>
  C4. When the error text contains "Unsupported ZIP Compression method NaN" and the
  file can be read, the issue list is the two lines of the unsupported-compression
  category followed by the findings of the structural prober, and the list of
  recommendations is the two fixed lines of that category followed by whatever the
  second stage derives from the findings: the second stage appends and replaces
  nothing. The text that \<open>analyzeCorruptedExcel\<close> returns is the three headed sections
  joined by line feeds: the issues in that order, the recommendations in that order, and
  the technical details.
\<close>

theorem unsupported_compression_diagnosis:
  assumes "js_includes errorMsg (asc ''Unsupported ZIP Compression method NaN'')"
    and "file_arrayBuffer file = Inr bytes"
  shows "corruptionFindings file errorMsg =
           ([asc ''The file uses an unsupported compression method (NaN).'',
             asc ''This typically happens with Excel files saved in very old versions or with non-standard tools.''] @
            deepIssues (file_name file) bytes,
            [asc ''Try opening the file in Microsoft Excel and using \"Save As\" to create a new XLSX file.'',
             asc ''If the original file cannot be opened, try a file recovery tool like \"Office File Recovery\".''] @
            deepRecommendations (deepIssues (file_name file) bytes)) \<and>
         analyzeCorruptedExcel env file errorMsg =
           join [10]
             ([asc ''=== ISSUE DETAILS ==='',
               asc ''The file uses an unsupported compression method (NaN).'',
               asc ''This typically happens with Excel files saved in very old versions or with non-standard tools.''] @
              deepIssues (file_name file) bytes @
              [[], asc ''=== REPAIR RECOMMENDATIONS ==='',
               asc ''Try opening the file in Microsoft Excel and using \"Save As\" to create a new XLSX file.'',
               asc ''If the original file cannot be opened, try a file recovery tool like \"Office File Recovery\".''] @
              deepRecommendations (deepIssues (file_name file) bytes) @
              [[], asc ''=== TECHNICAL DETAILS ==='',
               asc ''File name: '' @ file_name file,
               asc ''File size: '' @ toFixed2 (file_size file) 1024 @ asc '' KB'',
               asc ''Last modified: '' @ toLocaleString env (file_lastModified file)])"
  using assms
  by (simp add: analyzeCorruptedExcel_def corruptionFindings_def errorPatterns_def
      performDeepExcelAnalysis_def)

theorem unsupported_compression_diagnosis_witness:
  "js_includes (asc ''Unsupported ZIP Compression method NaN'')
     (asc ''Unsupported ZIP Compression method NaN'') \<and>
   corruptionFindings
     \<lparr>file_name = asc ''a.xlsx'', file_size = 4, file_lastModified = 0,
      file_arrayBuffer = Inr [0x50, 0x4B, 0x03, 0x04]\<rparr>
     (asc ''Unsupported ZIP Compression method NaN'') =
     ([asc ''The file uses an unsupported compression method (NaN).'',
       asc ''This typically happens with Excel files saved in very old versions or with non-standard tools.'',
       asc ''File has a valid XLSX/ZIP signature.'',
       asc ''ZIP Central Directory is missing or corrupt.'',
       asc ''This indicates the file was not properly closed when saved or was truncated.'',
       asc ''Missing essential XLSX components: [Content_Types].xml, workbook.xml, sheet, styles.xml, sharedStrings'',
       asc ''Missing [Content_Types].xml indicates severe corruption.''],
      [asc ''Try opening the file in Microsoft Excel and using \"Save As\" to create a new XLSX file.'',
       asc ''If the original file cannot be opened, try a file recovery tool like \"Office File Recovery\".'',
       asc ''The file appears to be incomplete. Try to obtain a complete copy of the file.'',
       asc ''Try using a ZIP repair tool like \"ZipRepair\" or \"DiskInternals ZIP Repair\" to rebuild the central directory.'',
       asc ''The internal structure of the Excel file is damaged. Try Excel's built-in repair feature by opening Excel first, then using File > Open and selecting \"Open and Repair\".'']) \<and>
   analyzeCorruptedExcel failingEnv
     \<lparr>file_name = asc ''a.xlsx'', file_size = 4, file_lastModified = 0,
      file_arrayBuffer = Inr [0x50, 0x4B, 0x03, 0x04]\<rparr>
     (asc ''Unsupported ZIP Compression method NaN'') =
     join [10]
      [asc ''=== ISSUE DETAILS ==='',
       asc ''The file uses an unsupported compression method (NaN).'',
       asc ''This typically happens with Excel files saved in very old versions or with non-standard tools.'',
       asc ''File has a valid XLSX/ZIP signature.'',
       asc ''ZIP Central Directory is missing or corrupt.'',
       asc ''This indicates the file was not properly closed when saved or was truncated.'',
       asc ''Missing essential XLSX components: [Content_Types].xml, workbook.xml, sheet, styles.xml, sharedStrings'',
       asc ''Missing [Content_Types].xml indicates severe corruption.'',
       [],
       asc ''=== REPAIR RECOMMENDATIONS ==='',
       asc ''Try opening the file in Microsoft Excel and using \"Save As\" to create a new XLSX file.'',
       asc ''If the original file cannot be opened, try a file recovery tool like \"Office File Recovery\".'',
       asc ''The file appears to be incomplete. Try to obtain a complete copy of the file.'',
       asc ''Try using a ZIP repair tool like \"ZipRepair\" or \"DiskInternals ZIP Repair\" to rebuild the central directory.'',
       asc ''The internal structure of the Excel file is damaged. Try Excel's built-in repair feature by opening Excel first, then using File > Open and selecting \"Open and Repair\".'',
       [],
       asc ''=== TECHNICAL DETAILS ==='',
       asc ''File name: a.xlsx'',
       asc ''File size: 0.00 KB'',
       asc ''Last modified: 0'']"
proof -
  have inc: "js_includes (asc ''Unsupported ZIP Compression method NaN'')
     (asc ''Unsupported ZIP Compression method NaN'')"
    by (simp add: asc_def)
  have deep: "deepIssues (asc ''a.xlsx'') [0x50, 0x4B, 0x03, 0x04] =
     [asc ''File has a valid XLSX/ZIP signature.'',
      asc ''ZIP Central Directory is missing or corrupt.'',
      asc ''This indicates the file was not properly closed when saved or was truncated.'',
      asc ''Missing essential XLSX components: [Content_Types].xml, workbook.xml, sheet, styles.xml, sharedStrings'',
      asc ''Missing [Content_Types].xml indicates severe corruption.'']"
    by (simp add: deepIssues_def formatDetection_def formatIdentification_def zipStructure_def
        sizeConsistency_def passwordProtection_def hasValidXlsxSignature_def
        hasValidXlsSignature_def byteAt_def hasCentralDir_def requiredComponents_def
        decode_def strip_bom_def utf16_def asc_def)
  have recs: "deepRecommendations
     [asc ''File has a valid XLSX/ZIP signature.'',
      asc ''ZIP Central Directory is missing or corrupt.'',
      asc ''This indicates the file was not properly closed when saved or was truncated.'',
      asc ''Missing essential XLSX components: [Content_Types].xml, workbook.xml, sheet, styles.xml, sharedStrings'',
      asc ''Missing [Content_Types].xml indicates severe corruption.''] =
     [asc ''The file appears to be incomplete. Try to obtain a complete copy of the file.'',
      asc ''Try using a ZIP repair tool like \"ZipRepair\" or \"DiskInternals ZIP Repair\" to rebuild the central directory.'',
      asc ''The internal structure of the Excel file is damaged. Try Excel's built-in repair feature by opening Excel first, then using File > Open and selecting \"Open and Repair\".'']"
    by (simp add: deepRecommendations_def asc_def)
  have fixed: "toFixed2 4 1024 = asc ''0.00''"
    by (simp add: toFixed2_def show_nat.simps asc_def)
  have date: "toLocaleString failingEnv 0 = asc ''0''"
    by (simp add: failingEnv_def show_nat.simps asc_def)
  have name: "asc ''File name: '' @ asc ''a.xlsx'' = asc ''File name: a.xlsx''"
    "asc ''File size: '' @ asc ''0.00'' @ asc '' KB'' = asc ''File size: 0.00 KB''"
    "asc ''Last modified: '' @ asc ''0'' = asc ''Last modified: 0''"
    by (simp_all add: asc_def)
  show ?thesis
    using inc unsupported_compression_diagnosis
      [of "asc ''Unsupported ZIP Compression method NaN''"
          "\<lparr>file_name = asc ''a.xlsx'', file_size = 4, file_lastModified = 0,
            file_arrayBuffer = Inr [0x50, 0x4B, 0x03, 0x04]\<rparr>" "[0x50, 0x4B, 0x03, 0x04]"
          failingEnv]
    by (simp add: deep recs fixed date name)
qed

section \<open>Properties of the analysis entry point\<close>

lemma metadata_creatorXlsx50:
  "extractBasicMetadata creatorXlsx50 = [(asc ''creator'', asc ''Bob'')]"
  by (simp add: extractBasicMetadata_def creatorXlsx50_def ascii_bytes_def decode_def
      strip_bom_def utf16_def metadataField_def metadataSheets_def lazyDot_def asc_def
      lineTerminator_def replicate_numeral_Cons)

lemma metadata_creatorXls50:
  "extractBasicMetadata creatorXls50 = [(asc ''creator'', asc ''Bob'')]"
  by (simp add: extractBasicMetadata_def creatorXls50_def ascii_bytes_def decode_def
      strip_bom_def utf16_def metadataField_def metadataSheets_def lazyDot_def asc_def
      lineTerminator_def replicate_numeral_Cons)

lemma metadata_blankXlsx50: "extractBasicMetadata blankXlsx50 = []"
  by (simp add: extractBasicMetadata_def blankXlsx50_def decode_def
      strip_bom_def utf16_def metadataField_def metadataSheets_def lazyDot_def asc_def
      lineTerminator_def replicate_numeral_Cons)

lemma invalid_creatorXlsx50: "\<not> isValidExcelFile creatorXlsx50"
  by (simp add: isValidExcelFile_def creatorXlsx50_def)

lemma invalid_creatorXls50: "\<not> isValidExcelFile creatorXls50"
  by (simp add: isValidExcelFile_def creatorXls50_def)

lemma invalid_blankXlsx50: "\<not> isValidExcelFile blankXlsx50"
  by (simp add: isValidExcelFile_def blankXlsx50_def)

text \<open>
  On the path through line 396 the two summary fields are computed from the results.
  On the path through the \<open>catch\<close> the verdict is right, since the entry just pushed has
  status error, and \<open>totalIssues\<close> is the length of the whole list.
\<close>

lemma summary_normal_path:
  assumes "tryBlock env file = Inr report"
  shows "checkExcelCompatibility env file = Inr report \<and>
         totalIssues report = length (filter (\<lambda>r. status r \<noteq> Success) (results report)) \<and>
         isCompatible report = (\<not> list_ex (\<lambda>r. status r = Error) (results report))"
  using assms
  by (auto simp: checkExcelCompatibility_def tryBlock_def Let_def
      split: if_splits sum.splits prod.splits)

lemma summary_catch_path:
  assumes "tryBlock env file = Inl (error, pushed)"
    and "checkExcelCompatibility env file = Inr report"
  shows "isCompatible report = (\<not> list_ex (\<lambda>r. status r = Error) (results report)) \<and>
         totalIssues report = length (results report)"
  using assms by (auto simp: checkExcelCompatibility_def list_ex_iff)

text \<open>
  C1, at a file the code can receive. \<open>report.xls\<close>, 50 bytes, with a creator tag in
  its bytes, passes the uploader's check and is rejected by the format check after the
  metadata entry has been pushed. The report then has two results, one of status success
  and one of status error, and \<open>totalIssues\<close> is 2 where one result is not a success.
\<close>

theorem totalIssues_counts_metadata_entry:
  "checkExcelCompatibility failingEnv creatorXls50 =
     Inr \<lparr>fileName = asc ''report.xls'', fileSize = 50, lastModified = 0,
          results =
            [\<lparr>status = Success, message = asc ''Successfully extracted some file metadata'',
              details = Some (asc ''Recovered Metadata:'' @ [10] @ asc ''creator: Bob''),
              location = None\<rparr>,
             \<lparr>status = Error, message = asc ''Failed to process Excel file'',
              details = Some (asc ''Invalid or corrupted Excel file format''), location = None\<rparr>],
          totalIssues = 2, isCompatible = False\<rparr> \<and>
   processFile failingEnv creatorXls50 = checkExcelCompatibility failingEnv creatorXls50 \<and>
   length (filter (\<lambda>r. status r \<noteq> Success)
     [\<lparr>status = Success, message = asc ''Successfully extracted some file metadata'',
       details = Some (asc ''Recovered Metadata:'' @ [10] @ asc ''creator: Bob''),
       location = None\<rparr>,
      \<lparr>status = Error, message = asc ''Failed to process Excel file'',
       details = Some (asc ''Invalid or corrupted Excel file format''), location = None\<rparr>]) = 1"
proof -
  have upl: "hasExcelExtension (file_name creatorXls50)"
    "\<not> ends_with (file_name creatorXls50) (asc ''.xlsx'')"
    by (simp_all add: creatorXls50_def hasExcelExtension_def ends_with_def asc_def ascii_lower_def)
  have tb: "tryBlock failingEnv creatorXls50 =
     Inl (asc ''Invalid or corrupted Excel file format'',
          [\<lparr>status = Success, message = asc ''Successfully extracted some file metadata'',
            details = Some (asc ''Recovered Metadata:'' @ [10] @ asc ''creator: Bob''),
            location = None\<rparr>])"
    using invalid_creatorXls50
    by (simp add: tryBlock_def metadata_creatorXls50 metadataResults_def metadataText_def asc_def)
  have names: "file_name creatorXls50 = asc ''report.xls''" "file_size creatorXls50 = 50"
    "file_lastModified creatorXls50 = 0"
    by (simp_all add: creatorXls50_def)
  show ?thesis
    using upl by (simp add: processFile_def checkExcelCompatibility_def tb names)
qed

text \<open>
  C2. The entry point settles with a report for every environment and every file.
  Whenever an exception leaves the body of the \<open>try\<close> (an explicit \<open>throw\<close>, a rejected
  read of the file, a \<open>TypeError\<close>), the report holds what had been pushed by then
  followed by exactly one entry of status error that carries the exception's message,
  and the report says the file is not compatible.
\<close>

theorem analysis_never_throws:
  "(\<exists>report. checkExcelCompatibility env file = Inr report) \<and>
   (\<forall>error pushed. tryBlock env file = Inl (error, pushed) \<longrightarrow>
      (\<exists>report. checkExcelCompatibility env file = Inr report \<and>
         results report =
           pushed @ [\<lparr>status = Error, message = asc ''Failed to process Excel file'',
                      details = Some error, location = None\<rparr>] \<and>
         \<not> isCompatible report))"
  by (auto simp: checkExcelCompatibility_def split: sum.splits)

theorem analysis_never_throws_witness:
  "tryBlock failingEnv blankXlsx50 = Inl (asc ''Invalid or corrupted Excel file format'', []) \<and>
   (\<exists>report. checkExcelCompatibility failingEnv blankXlsx50 = Inr report \<and>
      results report =
        [\<lparr>status = Error, message = asc ''Failed to process Excel file'',
          details = Some (asc ''Invalid or corrupted Excel file format''), location = None\<rparr>] \<and>
      \<not> isCompatible report)"
proof -
  have tb: "tryBlock failingEnv blankXlsx50 = Inl (asc ''Invalid or corrupted Excel file format'', [])"
    using invalid_blankXlsx50
    by (simp add: tryBlock_def metadata_blankXlsx50 metadataResults_def)
  show ?thesis
    using tb analysis_never_throws [of failingEnv blankXlsx50] by simp
qed

text \<open>
  The metadata salvager reads the bytes before the format check runs: two files named
  \<open>report.xlsx\<close> of 50 bytes that differ only in their bytes get different reports from
  the entry point, and \<open>report.xls\<close> of 50 bytes, which the uploader's check lets
  through, gets a report that quotes its bytes.
\<close>

theorem format_check_counterexample:
  "file_name blankXlsx50 = file_name creatorXlsx50 \<and>
   file_size blankXlsx50 = file_size creatorXlsx50 \<and>
   file_lastModified blankXlsx50 = file_lastModified creatorXlsx50 \<and>
   \<not> isValidExcelFile blankXlsx50 \<and> \<not> isValidExcelFile creatorXlsx50 \<and>
   checkExcelCompatibility failingEnv blankXlsx50 =
     Inr \<lparr>fileName = asc ''report.xlsx'', fileSize = 50, lastModified = 0,
          results =
            [\<lparr>status = Error, message = asc ''Failed to process Excel file'',
              details = Some (asc ''Invalid or corrupted Excel file format''), location = None\<rparr>],
          totalIssues = 1, isCompatible = False\<rparr> \<and>
   checkExcelCompatibility failingEnv creatorXlsx50 =
     Inr \<lparr>fileName = asc ''report.xlsx'', fileSize = 50, lastModified = 0,
          results =
            [\<lparr>status = Success, message = asc ''Successfully extracted some file metadata'',
              details = Some (asc ''Recovered Metadata:'' @ [10] @ asc ''creator: Bob''),
              location = None\<rparr>,
             \<lparr>status = Error, message = asc ''Failed to process Excel file'',
              details = Some (asc ''Invalid or corrupted Excel file format''), location = None\<rparr>],
          totalIssues = 2, isCompatible = False\<rparr> \<and>
   checkExcelCompatibility failingEnv blankXlsx50 \<noteq> checkExcelCompatibility failingEnv creatorXlsx50 \<and>
   processFile failingEnv creatorXls50 = checkExcelCompatibility failingEnv creatorXls50 \<and>
   checkExcelCompatibility failingEnv creatorXls50 =
     Inr \<lparr>fileName = asc ''report.xls'', fileSize = 50, lastModified = 0,
          results =
            [\<lparr>status = Success, message = asc ''Successfully extracted some file metadata'',
              details = Some (asc ''Recovered Metadata:'' @ [10] @ asc ''creator: Bob''),
              location = None\<rparr>,
             \<lparr>status = Error, message = asc ''Failed to process Excel file'',
              details = Some (asc ''Invalid or corrupted Excel file format''), location = None\<rparr>],
          totalIssues = 2, isCompatible = False\<rparr>"
proof -
  have tb1: "tryBlock failingEnv blankXlsx50 = Inl (asc ''Invalid or corrupted Excel file format'', [])"
    using invalid_blankXlsx50
    by (simp add: tryBlock_def metadata_blankXlsx50 metadataResults_def)
  have tb2: "tryBlock failingEnv creatorXlsx50 =
     Inl (asc ''Invalid or corrupted Excel file format'',
          [\<lparr>status = Success, message = asc ''Successfully extracted some file metadata'',
            details = Some (asc ''Recovered Metadata:'' @ [10] @ asc ''creator: Bob''),
            location = None\<rparr>])"
    using invalid_creatorXlsx50
    by (simp add: tryBlock_def metadata_creatorXlsx50 metadataResults_def metadataText_def asc_def)
  have tb3: "tryBlock failingEnv creatorXls50 =
     Inl (asc ''Invalid or corrupted Excel file format'',
          [\<lparr>status = Success, message = asc ''Successfully extracted some file metadata'',
            details = Some (asc ''Recovered Metadata:'' @ [10] @ asc ''creator: Bob''),
            location = None\<rparr>])"
    using invalid_creatorXls50
    by (simp add: tryBlock_def metadata_creatorXls50 metadataResults_def metadataText_def asc_def)
  have upl: "hasExcelExtension (file_name creatorXls50)"
    "\<not> ends_with (file_name creatorXls50) (asc ''.xlsx'')"
    by (simp_all add: creatorXls50_def hasExcelExtension_def ends_with_def asc_def ascii_lower_def)
  have c1: "checkExcelCompatibility failingEnv blankXlsx50 =
     Inr \<lparr>fileName = asc ''report.xlsx'', fileSize = 50, lastModified = 0,
          results =
            [\<lparr>status = Error, message = asc ''Failed to process Excel file'',
              details = Some (asc ''Invalid or corrupted Excel file format''), location = None\<rparr>],
          totalIssues = 1, isCompatible = False\<rparr>"
    by (simp add: checkExcelCompatibility_def tb1) (simp add: blankXlsx50_def)
  have c2: "checkExcelCompatibility failingEnv creatorXlsx50 =
     Inr \<lparr>fileName = asc ''report.xlsx'', fileSize = 50, lastModified = 0,
          results =
            [\<lparr>status = Success, message = asc ''Successfully extracted some file metadata'',
              details = Some (asc ''Recovered Metadata:'' @ [10] @ asc ''creator: Bob''),
              location = None\<rparr>,
             \<lparr>status = Error, message = asc ''Failed to process Excel file'',
              details = Some (asc ''Invalid or corrupted Excel file format''), location = None\<rparr>],
          totalIssues = 2, isCompatible = False\<rparr>"
    by (simp add: checkExcelCompatibility_def tb2) (simp add: creatorXlsx50_def)
  have c3: "checkExcelCompatibility failingEnv creatorXls50 =
     Inr \<lparr>fileName = asc ''report.xls'', fileSize = 50, lastModified = 0,
          results =
            [\<lparr>status = Success, message = asc ''Successfully extracted some file metadata'',
              details = Some (asc ''Recovered Metadata:'' @ [10] @ asc ''creator: Bob''),
              location = None\<rparr>,
             \<lparr>status = Error, message = asc ''Failed to process Excel file'',
              details = Some (asc ''Invalid or corrupted Excel file format''), location = None\<rparr>],
          totalIssues = 2, isCompatible = False\<rparr>"
    by (simp add: checkExcelCompatibility_def tb3) (simp add: creatorXls50_def)
  have p3: "processFile failingEnv creatorXls50 = checkExcelCompatibility failingEnv creatorXls50"
    using upl by (simp add: processFile_def checkExcelCompatibility_def tb3)
  have names: "file_name blankXlsx50 = file_name creatorXlsx50"
    "file_size blankXlsx50 = file_size creatorXlsx50"
    "file_lastModified blankXlsx50 = file_lastModified creatorXlsx50"
    by (simp_all add: blankXlsx50_def creatorXlsx50_def)
  have ne: "checkExcelCompatibility failingEnv blankXlsx50 \<noteq> checkExcelCompatibility failingEnv creatorXlsx50"
    unfolding c1 c2 by simp
  show ?thesis
    using names invalid_blankXlsx50 invalid_creatorXlsx50 c1 c2 c3 p3 ne by blast
qed

text \<open>
  C6, as the code has it. A file with a wrong extension or of fewer than 128 bytes is
  rejected by the entry point before any parser, structural probe or limit check runs,
  whatever the parsers would do. Only the metadata salvager has read the bytes by then:
  the report is its success entry, if it found anything, followed by one error entry
  with the details "Invalid or corrupted Excel file format", and the file is reported
  as not compatible. The uploader in front of the entry point turns such a file away
  with a fixed message, and nothing has read its bytes, when the extension is wrong or
  the name ends in \<open>.xlsx\<close>.
\<close>

theorem format_rejection:
  assumes "\<not> isValidExcelFile file"
  shows "checkExcelCompatibility env file =
           Inr \<lparr>fileName = file_name file, fileSize = file_size file,
                lastModified = file_lastModified file,
                results =
                  metadataResults (extractBasicMetadata file) @
                  [\<lparr>status = Error, message = asc ''Failed to process Excel file'',
                    details = Some (asc ''Invalid or corrupted Excel file format''),
                    location = None\<rparr>],
                totalIssues = length (metadataResults (extractBasicMetadata file)) + 1,
                isCompatible = False\<rparr> \<and>
         (\<not> hasExcelExtension (file_name file) \<or> ends_with (file_name file) (asc ''.xlsx'') \<longrightarrow>
          processFile env file =
            Inl (if \<not> hasExcelExtension (file_name file)
                 then asc ''Please upload a valid Excel file (.xlsx, .xls, .xlsm, or .xlsb)''
                 else asc ''This Excel file appears to be corrupted or empty.''))"
proof -
  have "file_size file < 128" if "hasExcelExtension (file_name file)"
    using assms that by (simp add: isValidExcelFile_def split: if_splits)
  then show ?thesis
    using assms by (auto simp: checkExcelCompatibility_def tryBlock_def Let_def processFile_def)
qed

theorem format_rejection_witness:
  "\<not> isValidExcelFile blankXlsx50 \<and>
   ends_with (file_name blankXlsx50) (asc ''.xlsx'') \<and>
   checkExcelCompatibility failingEnv blankXlsx50 =
     Inr \<lparr>fileName = asc ''report.xlsx'', fileSize = 50, lastModified = 0,
          results =
            [\<lparr>status = Error, message = asc ''Failed to process Excel file'',
              details = Some (asc ''Invalid or corrupted Excel file format''), location = None\<rparr>],
          totalIssues = 1, isCompatible = False\<rparr> \<and>
   processFile failingEnv blankXlsx50 = Inl (asc ''This Excel file appears to be corrupted or empty.'')"
proof -
  have e: "ends_with (file_name blankXlsx50) (asc ''.xlsx'')"
    "hasExcelExtension (file_name blankXlsx50)"
    by (simp_all add: blankXlsx50_def hasExcelExtension_def ends_with_def asc_def ascii_lower_def)
  show ?thesis
    using invalid_blankXlsx50 e format_rejection [of blankXlsx50 failingEnv]
    by (simp add: metadata_blankXlsx50 metadataResults_def) (simp add: blankXlsx50_def)
qed

section \<open>Properties of content recovery\<close>

subsection \<open>Searching and matching\<close>

lemma starts_with_take: "starts_with s p \<longleftrightarrow> take (length p) s = p"
  by (induction s p rule: starts_with.induct) auto

lemma starts_with_decomp: "starts_with s p \<Longrightarrow> s = p @ drop (length p) s"
  by (metis append_take_drop_id starts_with_take)

lemma starts_with_append [simp]: "starts_with (p @ r) p"
  by (simp add: starts_with_take)

lemma all_matches_skip:
  assumes "\<forall>a1 a2. a = a1 @ a2 \<and> a2 \<noteq> [] \<longrightarrow> here (a2 @ b) = None"
  shows "all_matches here (a @ b) = all_matches here b"
  using assms
proof (induction a)
  case Nil
  then show ?case by simp
next
  case (Cons x a)
  have "here ((x # a) @ b) = None" using Cons.prems by blast
  moreover have "\<forall>a1 a2. a = a1 @ a2 \<and> a2 \<noteq> [] \<longrightarrow> here (a2 @ b) = None"
    using Cons.prems by (metis append_Cons)
  ultimately show ?case using Cons.IH by simp
qed


subsection \<open>The binary path\<close>

lemma scanTextBlocks_zero: "scanTextBlocks (replicate n 0) [] = []"
  by (induction n) (simp_all add: closeBlock_def printableByte_def)

text \<open>
  C9. For a buffer of zero bytes, of any length, the binary path finds no run of
  printable bytes: the list of text blocks and the list of cleaned blocks are empty, and
  the result (returned, not thrown) is the fallback message as the only text line, no
  table and the type tag binary.
\<close>

theorem zero_buffer_recovery:
  "scanTextBlocks (replicate n 0) [] = [] \<and>
   cleanBlocks (scanTextBlocks (replicate n 0) []) = [] \<and>
   extractTextFromBinary (replicate n 0) =
     \<lparr>rc_text = [asc ''No readable text could be recovered from this file.''],
      rc_tables = [], rc_type = TypeBinary, rc_source = asc ''Binary file analysis''\<rparr>"
  by (simp add: extractTextFromBinary_def scanTextBlocks_zero cleanBlocks_def)

text \<open>
  The dispatch sends such a buffer to the binary path, whatever its length, and the
  comparison with seven tenths is the one of double arithmetic: 63 exceeds \<open>90 * 0.7\<close>.
\<close>

lemma zero_buffer_dispatch:
  assumes "file_arrayBuffer file = Inr (replicate n 0)"
  shows "attemptContentRecovery engine regexpError file = Some (extractTextFromBinary (replicate n 0))"
proof -
  have "\<not> hasValidXlsxSignature (replicate n 0)"
    by (auto simp: hasValidXlsxSignature_def byteAt_def)
  then show ?thesis using assms by (simp add: attemptContentRecovery_def)
qed

lemma seven_tenths_of_ninety: "exceedsSevenTenths 63 90 \<and> \<not> exceedsSevenTenths 7 10"
proof -
  have "bit_length 567453553048682460 = 59" "bit_length 63050394783186940 = 56"
    by (simp_all add: bit_length.simps)
  then show ?thesis
    by (simp add: exceedsSevenTenths_def roundToDouble_def Let_def)
qed

subsection \<open>Well-formed sheet data is read back\<close>




lemma takeWhile_stop:
  assumes "\<forall>c \<in> set v. P c" and "\<not> P x"
  shows "takeWhile P (v @ x # w) = v" and "dropWhile P (v @ x # w) = x # w"
  using assms by (induction v) auto












subsubsection \<open>Cells\<close>






subsubsection \<open>Rows\<close>





subsubsection \<open>Sheet data blocks\<close>






subsubsection \<open>The tables\<close>















subsection \<open>The three cell expressions of the fallback reconstruction\<close>

lemma ends_with_append: "ends_with y p \<Longrightarrow> ends_with (x @ y) p"
  by (simp add: ends_with_def starts_with_take) (metis append_take_drop_id take_append take_all_iff
      length_rev rev_append take_rev append.assoc append_eq_conv_conj)

lemma cellRef_SomeD:
  assumes "cellRef s = Some (col, digits, attrs, r)"
  shows "s = asc ''<c r=\"'' @ col @ digits @ [34] @ attrs @ r"
    and "col \<noteq> []" and "\<forall>c \<in> set col. isUpper c"
    and "digits \<noteq> []" and "\<forall>c \<in> set digits. isDigit c"
    and "62 \<notin> set attrs" and "r = [] \<or> hd r = 62"
proof -
  define r0 where "r0 = drop (length (asc ''<c r=\"'')) s"
  define r1 where "r1 = dropWhile isUpper r0"
  define r2 where "r2 = dropWhile isDigit r1"
  from assms have sw: "starts_with s (asc ''<c r=\"'')"
    by (simp add: cellRef_def split: if_splits)
  from assms sw have c: "col = takeWhile isUpper r0" "digits = takeWhile isDigit r1"
    "col \<noteq> []" "digits \<noteq> []" "starts_with r2 [34]"
    "attrs = takeWhile (\<lambda>c. c \<noteq> 62) (drop 1 r2)" "r = dropWhile (\<lambda>c. c \<noteq> 62) (drop 1 r2)"
    by (auto simp: cellRef_def Let_def r0_def r1_def r2_def split: if_splits)
  have s0: "s = asc ''<c r=\"'' @ r0"
    using starts_with_decomp [OF sw] by (simp add: r0_def)
  have s1: "r0 = col @ r1" by (simp add: c r1_def)
  have s2: "r1 = digits @ r2" by (simp add: c r2_def)
  have s3: "r2 = [34] @ drop 1 r2" using starts_with_decomp [OF c(5)] by simp
  have s4: "drop 1 r2 = attrs @ r" by (simp add: c)
  show "s = asc ''<c r=\"'' @ col @ digits @ [34] @ attrs @ r"
    using s0 s1 s2 s3 s4 by (metis append.assoc)
  show "col \<noteq> []" "digits \<noteq> []" by (rule c)+
  show "\<forall>c \<in> set col. isUpper c" unfolding c by (auto dest: set_takeWhileD)
  show "\<forall>c \<in> set digits. isDigit c" unfolding c by (auto dest: set_takeWhileD)
  show "62 \<notin> set attrs" unfolding c by (auto dest: set_takeWhileD)
  show "r = [] \<or> hd r = 62" unfolding c using hd_dropWhile [of "\<lambda>c. c \<noteq> 62" "drop 1 r2"] by auto
qed

text \<open>
  A match of the shared-string expression at a position is a match of the raw value
  expression at the same position, with the same groups and the same end.
\<close>

lemma sharedHere_numericHere:
  assumes "sharedHere s = Some (m, rest)"
  shows "numericHere s = Some (m, rest)"
proof -
  from assms obtain col digits attrs r where cr: "cellRef s = Some (col, digits, attrs, r)"
    by (auto simp: sharedHere_def split: option.splits)
  define t where "t = drop (length (asc ''><v>'')) r"
  define v where "v = takeWhile isDigit t"
  define u where "u = dropWhile isDigit t"
  from assms cr have h: "starts_with r (asc ''><v>'')" "v \<noteq> []" "starts_with u (asc ''</v></c>'')"
    "m = (col, digits, v)" "rest = drop (length (asc ''</v></c>'')) u"
    by (auto simp: sharedHere_def Let_def t_def v_def u_def split: if_splits)
  have tv: "t = v @ u" by (simp add: v_def u_def)
  from starts_with_decomp [OF h(3)] obtain w where u: "u = 60 # w"
    by (simp add: asc_def)
  have dig: "\<forall>c \<in> set v. c \<noteq> 60"
    unfolding v_def by (auto dest!: set_takeWhileD simp: isDigit_def)
  have "takeWhile (\<lambda>c. c \<noteq> 60) t = v" "dropWhile (\<lambda>c. c \<noteq> 60) t = u"
    unfolding tv u using takeWhile_stop [of v "\<lambda>c. c \<noteq> 60" 60 w] dig by auto
  then have "delimited False (asc ''><v>'') 60 (asc ''</v></c>'') r = Some (v, rest)"
    using h by (simp add: delimited_def Let_def t_def)
  then show ?thesis using cr h(4) by (simp add: numericHere_def)
qed


lemma numericHere_SomeD:
  assumes "numericHere s = Some ((col, digits, v), rest)"
  shows "\<exists>attrs. cellRef s = Some (col, digits, attrs, asc ''><v>'' @ v @ asc ''</v></c>'' @ rest)"
    and "60 \<notin> set v"
proof -
  from assms obtain attrs r where cr: "cellRef s = Some (col, digits, attrs, r)"
    and d: "delimited False (asc ''><v>'') 60 (asc ''</v></c>'') r = Some (v, rest)"
    by (auto simp: numericHere_def split: option.splits)
  define t where "t = drop (length (asc ''><v>'')) r"
  define u where "u = dropWhile (\<lambda>c. c \<noteq> 60) t"
  from d have h: "starts_with r (asc ''><v>'')" "v = takeWhile (\<lambda>c. c \<noteq> 60) t"
    "starts_with u (asc ''</v></c>'')" "rest = drop (length (asc ''</v></c>'')) u"
    by (auto simp: delimited_def Let_def t_def u_def split: if_splits)
  have "r = asc ''><v>'' @ t" using starts_with_decomp [OF h(1)] by (simp add: t_def)
  moreover have "t = v @ u" by (simp add: h(2) u_def)
  moreover have "u = asc ''</v></c>'' @ rest" using starts_with_decomp [OF h(3)] by (simp add: h(4))
  ultimately have "r = asc ''><v>'' @ v @ asc ''</v></c>'' @ rest" by simp
  then show "\<exists>attrs. cellRef s = Some (col, digits, attrs, asc ''><v>'' @ v @ asc ''</v></c>'' @ rest)"
    using cr by auto
  show "60 \<notin> set v" unfolding h(2) by (auto dest: set_takeWhileD)
qed

text \<open>
  Inside the part \<open>><v>...</v></c>\<close> of a match no suffix starts with \<open><c\<close>.
\<close>

lemma close_no_cell:
  assumes "asc ''</v></c>'' @ rest = a @ b" and "length rest < length b"
  shows "\<not> starts_with b (asc ''<c'')"
  using assms by (auto simp: asc_def Cons_eq_append_conv)

lemma value_no_cell:
  assumes "v @ asc ''</v></c>'' @ rest = a @ b" and "length rest < length b" and "60 \<notin> set v"
  shows "\<not> starts_with b (asc ''<c'')"
  using assms
proof (induction v arbitrary: a)
  case Nil
  then show ?case using close_no_cell [of rest a b] by simp
next
  case (Cons x v)
  show ?case
  proof (cases a)
    case Nil
    then have "b = x # (v @ asc ''</v></c>'' @ rest)" using Cons.prems(1) by simp
    then show ?thesis using Cons.prems(3) by (simp add: asc_def)
  next
    case (Cons y a')
    then have "v @ asc ''</v></c>'' @ rest = a' @ b" using Cons.prems(1) by simp
    then show ?thesis using Cons.IH [of a'] Cons.prems(2,3) by simp
  qed
qed

lemma tail_no_cell:
  assumes "asc ''><v>'' @ v @ asc ''</v></c>'' @ rest = a @ b"
    and "length rest < length b" and "60 \<notin> set v"
  shows "\<not> starts_with b (asc ''<c'')"
proof -
  from assms(1) have "62 # 60 # 118 # 62 # (v @ asc ''</v></c>'' @ rest) = a @ b"
    by (simp add: asc_def)
  then consider "b = 62 # 60 # 118 # 62 # (v @ asc ''</v></c>'' @ rest)"
    | "b = 60 # 118 # 62 # (v @ asc ''</v></c>'' @ rest)"
    | "b = 118 # 62 # (v @ asc ''</v></c>'' @ rest)"
    | "b = 62 # (v @ asc ''</v></c>'' @ rest)"
    | a' where "v @ asc ''</v></c>'' @ rest = a' @ b"
    by (auto simp: Cons_eq_append_conv)
  then show ?thesis
  proof cases
    case 5
    then show ?thesis using value_no_cell [of v rest a' b] assms(2,3) by simp
  qed (simp_all add: asc_def)
qed

lemma first_gt_unique:
  fixes x x' y y' :: jsstring
  assumes "62 \<notin> set x" and "62 \<notin> set x'" and "x @ 62 # y = x' @ 62 # y'"
  shows "x = x' \<and> y = y'"
proof -
  have "\<forall>c \<in> set x. c \<noteq> 62" "\<forall>c \<in> set x'. c \<noteq> 62"
    using assms(1,2) by auto
  then have "takeWhile (\<lambda>c. c \<noteq> 62) (x @ 62 # y) = x" "takeWhile (\<lambda>c. c \<noteq> 62) (x' @ 62 # y') = x'"
    using takeWhile_stop(1) [of x "\<lambda>c. c \<noteq> 62" 62 y]
      takeWhile_stop(1) [of x' "\<lambda>c. c \<noteq> 62" 62 y'] by simp_all
  then have "x = x'" using assms(3) by simp
  then show ?thesis using assms(3) by simp
qed

text \<open>
  A match of the shared-string expression that starts strictly inside a match of the raw
  value expression can only start inside the attribute run of that match, and then the
  shared-string expression matches at the start of that match as well.
\<close>

lemma shared_inside_numeric:
  assumes n: "numericHere s = Some (m, rest)"
    and split: "s = a @ b" "a \<noteq> []" "length rest < length b"
    and sh: "sharedHere b \<noteq> None"
  shows "sharedHere s \<noteq> None"
proof -
  obtain col digits v where m: "m = (col, digits, v)" by (cases m) auto
  define Y where "Y = asc ''><v>'' @ v @ asc ''</v></c>'' @ rest"
  from numericHere_SomeD [OF n [unfolded m]] obtain attrs
    where cr: "cellRef s = Some (col, digits, attrs, Y)" and v: "60 \<notin> set v"
    by (auto simp: Y_def)
  define P where "P = asc ''<c r=\"'' @ col @ digits @ [34]"
  note d = cellRef_SomeD [OF cr]
  have s: "s = (P @ attrs) @ Y" using d(1) by (simp add: P_def)
  have noP: "62 \<notin> set (P @ attrs)"
    using d(3,5,6) by (auto simp: P_def asc_def isUpper_def isDigit_def)
  from sh obtain col' digits' attrs' r' where cr': "cellRef b = Some (col', digits', attrs', r')"
    by (auto simp: sharedHere_def split: option.splits)
  from sh cr' have c': "ends_with attrs' (asc ''t=\"s\"'')" "starts_with r' (asc ''><v>'')"
    by (auto simp: sharedHere_def split: if_splits)
  define P' where "P' = asc ''<c r=\"'' @ col' @ digits' @ [34]"
  note d' = cellRef_SomeD [OF cr']
  have b: "b = (P' @ attrs') @ r'" using d'(1) by (simp add: P'_def)
  have noP': "62 \<notin> set (P' @ attrs')"
    using d'(3,5,6) by (auto simp: P'_def asc_def isUpper_def isDigit_def)
  have bc: "starts_with b (asc ''<c'')"
    unfolding b by (simp add: P'_def asc_def)
  define X where "X = P @ attrs"
  from split(1) s have "a @ b = X @ Y" by (simp add: X_def)
  then obtain u where "(a = X @ u \<and> u @ b = Y) \<or> (a @ u = X \<and> b = u @ Y)"
    using append_eq_append_conv2 [of a b X Y] by blast
  then show ?thesis
  proof
    assume "a = X @ u \<and> u @ b = Y"
    then have "asc ''><v>'' @ v @ asc ''</v></c>'' @ rest = u @ b" by (simp add: Y_def)
    from tail_no_cell [OF this split(3) v] bc show ?thesis by simp
  next
    assume au0: "a @ u = X \<and> b = u @ Y"
    then have au: "a @ u = P @ attrs \<and> b = u @ Y" by (simp add: X_def)
    then have nou: "62 \<notin> set u" using noP by (metis Un_iff set_append)
    obtain y where Y: "Y = 62 # y" by (simp add: Y_def asc_def)
    obtain y' where r': "r' = 62 # y'"
      using starts_with_decomp [OF c'(2)] by (simp add: asc_def)
    have "u @ 62 # y = (P' @ attrs') @ 62 # y'"
      using au b Y r' by simp
    from first_gt_unique [OF nou noP' this] have u: "u = P' @ attrs'" and yy: "Y = r'"
      using Y r' by auto
    have "\<exists>w. attrs = w @ u"
    proof -
      from au obtain w where "(a = P @ w \<and> w @ u = attrs) \<or> (a @ w = P \<and> u = w @ attrs)"
        using append_eq_append_conv2 [of a u P attrs] by blast
      then show ?thesis
      proof
        assume "a = P @ w \<and> w @ u = attrs"
        then show ?thesis by auto
      next
        assume aw: "a @ w = P \<and> u = w @ attrs"
        show ?thesis
        proof (cases w)
          case Nil
          then show ?thesis using aw by auto
        next
          case (Cons x w')
          have "hd u = 60" unfolding u by (simp add: P'_def asc_def)
          then have x: "x = 60" using aw Cons by simp
          obtain a0 a' where a: "a = a0 # a'" using split(2) by (cases a) auto
          have "P = 60 # (asc ''c r=\"'' @ col @ digits @ [34])" by (simp add: P_def asc_def)
          then have "a' @ x # w' = asc ''c r=\"'' @ col @ digits @ [34]"
            using aw a Cons by simp
          then have "x \<in> set (asc ''c r=\"'' @ col @ digits @ [34])"
            by (metis in_set_conv_decomp)
          then show ?thesis
            using x d(3,5) by (auto simp: asc_def isUpper_def isDigit_def)
        qed
      qed
    qed
    then obtain w where "attrs = (w @ P') @ attrs'" using u by auto
    then have e: "ends_with attrs (asc ''t=\"s\"'')"
      using ends_with_append [OF c'(1)] by metis
    from sh cr' have c'':
      "takeWhile isDigit (drop (length (asc ''><v>'')) r') \<noteq> []"
      "starts_with (dropWhile isDigit (drop (length (asc ''><v>'')) r')) (asc ''</v></c>'')"
      by (auto simp: sharedHere_def Let_def split: if_splits)
    show ?thesis
      using cr e c'(2) c'' by (simp add: sharedHere_def Let_def yy)
  qed
qed


lemma numericHere_rest:
  assumes "numericHere s = Some (m, rest)"
  shows "\<exists>pre. s = pre @ rest \<and> pre \<noteq> []"
proof -
  obtain col digits v where m: "m = (col, digits, v)" by (cases m) auto
  from numericHere_SomeD(1) [OF assms [unfolded m]] obtain attrs
    where "cellRef s = Some (col, digits, attrs, asc ''><v>'' @ v @ asc ''</v></c>'' @ rest)"
    by auto
  from cellRef_SomeD(1) [OF this]
  have "s = (asc ''<c r=\"'' @ col @ digits @ [34] @ attrs @ asc ''><v>'' @ v @ asc ''</v></c>'') @ rest"
    by simp
  moreover have "asc ''<c r=\"'' @ col @ digits @ [34] @ attrs @ asc ''><v>'' @ v @ asc ''</v></c>'' \<noteq> []"
    by simp
  ultimately show ?thesis by blast
qed

text \<open>
  Every match found by the loop over the shared-string expression is found, with the
  same groups, by the loop over the raw value expression.
\<close>

lemma shared_subset_numeric:
  "set (all_matches sharedHere s) \<subseteq> set (all_matches numericHere s)"
proof (induction "length s" arbitrary: s rule: less_induct)
  case less
  show ?case
  proof (cases s)
    case Nil
    then show ?thesis by simp
  next
    case (Cons c cs)
    show ?thesis
    proof (cases "numericHere s")
      case None
      then have "sharedHere s = None"
        using sharedHere_numericHere [of s] by (cases "sharedHere s") auto
      then show ?thesis
        using None Cons less [of cs] by simp
    next
      case (Some mr)
      obtain m rest where mr: "mr = (m, rest)" by (cases mr) auto
      from numericHere_rest [OF Some [unfolded mr]] obtain pre
        where pre: "s = pre @ rest" "pre \<noteq> []" by auto
      then have len: "length rest \<le> length cs" "length rest < length s"
        using Cons by (cases pre; simp)+
      have N: "all_matches numericHere s = m # all_matches numericHere rest"
        using Some mr Cons len by simp
      have IH: "set (all_matches sharedHere rest) \<subseteq> set (all_matches numericHere rest)"
        using less [of rest] len by simp
      show ?thesis
      proof (cases "sharedHere s")
        case (Some mr')
        then have "mr' = (m, rest)"
          using sharedHere_numericHere [of s "fst mr'" "snd mr'"] \<open>numericHere s = Some mr\<close> mr
          by simp
        then have "all_matches sharedHere s = m # all_matches sharedHere rest"
          using Some Cons len by simp
        then show ?thesis using N IH by auto
      next
        case None
        obtain pre' where pre': "pre = c # pre'" "cs = pre' @ rest"
          using pre Cons by (cases pre) auto
        have "\<forall>a1 a2. pre' = a1 @ a2 \<and> a2 \<noteq> [] \<longrightarrow> sharedHere (a2 @ rest) = None"
        proof (intro allI impI)
          fix a1 a2 assume a: "pre' = a1 @ a2 \<and> a2 \<noteq> []"
          show "sharedHere (a2 @ rest) = None"
          proof (rule ccontr)
            assume "sharedHere (a2 @ rest) \<noteq> None"
            moreover have "s = (c # a1) @ (a2 @ rest)" using pre pre' a by simp
            moreover have "length rest < length (a2 @ rest)" using a by simp
            ultimately have "sharedHere s \<noteq> None"
              using shared_inside_numeric [OF \<open>numericHere s = Some mr\<close> [unfolded mr], of "c # a1" "a2 @ rest"]
              by simp
            then show False using None by simp
          qed
        qed
        then have "all_matches sharedHere cs = all_matches sharedHere rest"
          unfolding pre'(2) by (rule all_matches_skip)
        then have "all_matches sharedHere s = all_matches sharedHere rest"
          using None Cons by simp
        then show ?thesis using N IH by auto
      qed
    qed
  qed
qed

subsection \<open>The sparse cell map\<close>

lemma map_of_putCell:
  "map_of (putCell engine cellData (c, d, v)) =
     (map_of cellData)(cellKey engine c d \<mapsto>
        \<lparr>cell_row = parseInt engine d, cell_col = c, cell_value = v\<rparr>)"
  by (simp add: putCell_def update_conv')

lemma map_of_foldl_putCell:
  "map_of (foldl (putCell engine) cellData ms) k =
     (if filter (\<lambda>m. cellKey engine (fst m) (fst (snd m)) = k) ms = [] then map_of cellData k
      else (case last (filter (\<lambda>m. cellKey engine (fst m) (fst (snd m)) = k) ms) of
              (c, d, v) \<Rightarrow> Some \<lparr>cell_row = parseInt engine d, cell_col = c, cell_value = v\<rparr>))"
proof (induction ms rule: rev_induct)
  case Nil
  then show ?case by simp
next
  case (snoc m ms)
  obtain c d v where m: "m = (c, d, v)" by (cases m) auto
  show ?case
    using snoc by (simp add: m map_of_putCell)
qed

text \<open>
  C10, as the code has it. Every cell matched by the shared-string expression is also
  matched, with the same column letters and row digits and with the index digits as its
  value, by the raw value expression, whose pass runs last. So what the cell map finally
  holds under that cell's key (and what the "Recovered Spreadsheet" table looks up for
  its row and column) is the raw value of the last match of the raw value expression
  with this key: the index digits themselves when no later cell has the same key. What
  the first pass wrote under the key is always overwritten, and a later cell with the
  same key overwrites the index as well. The key is the column letters followed by the
  row number as the engine parses and prints it, whatever the engine.
\<close>

theorem shared_cells_overwritten:
  assumes "(col, digits, index) \<in> set (all_matches sharedHere fullText)"
  shows "(col, digits, index) \<in> set (all_matches numericHere fullText) \<and>
         filter (\<lambda>m. cellKey engine (fst m) (fst (snd m)) = cellKey engine col digits)
           (all_matches numericHere fullText) \<noteq> [] \<and>
         map_of (collectCells engine sharedStrings fullText) (cellKey engine col digits) =
           (case last (filter (\<lambda>m. cellKey engine (fst m) (fst (snd m)) = cellKey engine col digits)
                         (all_matches numericHere fullText)) of
              (c, d, v) \<Rightarrow>
                Some \<lparr>cell_row = parseInt engine d, cell_col = c, cell_value = v\<rparr>)"
proof -
  have mem: "(col, digits, index) \<in> set (all_matches numericHere fullText)"
    using assms shared_subset_numeric [of fullText] by blast
  then have "(col, digits, index) \<in>
      set (filter (\<lambda>m. cellKey engine (fst m) (fst (snd m)) = cellKey engine col digits)
             (all_matches numericHere fullText))"
    by simp
  then have ne: "filter (\<lambda>m. cellKey engine (fst m) (fst (snd m)) = cellKey engine col digits)
           (all_matches numericHere fullText) \<noteq> []"
    by (metis empty_iff empty_set)
  show ?thesis
    using mem ne by (simp add: collectCells_def map_of_foldl_putCell)
qed

text \<open>The numbers 0 and 1 in the engine of the concrete runs.\<close>

lemma bit_length_small: "bit_length 0 = 0" "bit_length (Suc 0) = 1" "bit_length 2 = 2"
proof -
  show b0: "bit_length 0 = 0" by (simp add: bit_length.simps [of 0])
  show b1: "bit_length (Suc 0) = 1" using b0 by (simp add: bit_length.simps [of "Suc 0"])
  show "bit_length 2 = 2" using b1 by (simp add: bit_length.simps [of 2])
qed

lemma roundToDouble_small: "roundToDouble 0 = 0" "roundToDouble (Suc 0) = 1" "roundToDouble 2 = 2"
  by (simp_all add: roundToDouble_def bit_length_small)

lemma small_numbers:
  "parseInt currentEngine (asc ''0'') = 0"
  "parseInt currentEngine (asc ''1'') = 1"
  "numberToString currentEngine 1 = asc ''1''"
proof -
  have s1: "show_nat (Suc 0) = [49]" by (simp add: show_nat.simps [of "Suc 0"])
  show "parseInt currentEngine (asc ''0'') = 0"
    by (simp add: currentEngine_def toDouble_def decimalValue_def roundToDouble_small
        zero_enat_def asc_def)
  show "parseInt currentEngine (asc ''1'') = 1"
    by (simp add: currentEngine_def toDouble_def decimalValue_def roundToDouble_small
        one_enat_def asc_def)
  have "shortestDecimal (Suc 0) = 1"
    by (simp add: shortestDecimal_def s1 roundToDouble_small)
  then show "numberToString currentEngine 1 = asc ''1''"
    by (simp add: currentEngine_def printNumber_def one_enat_def s1 asc_def)
qed

lemma matches_sharedOnce:
  "all_matches sharedHere sharedOnce = [(asc ''A'', asc ''1'', asc ''0'')]"
  "all_matches numericHere sharedOnce = [(asc ''A'', asc ''1'', asc ''0'')]"
  by (simp_all add: sharedOnce_def sharedHere_def numericHere_def cellRef_def delimited_def
      ends_with_def isUpper_def isDigit_def asc_def)

theorem shared_cells_overwritten_witness:
  "(asc ''A'', asc ''1'', asc ''0'') \<in> set (all_matches sharedHere sharedOnce) \<and>
   sharedStringList (asc ''<si><t>Hello</t></si>'') = [asc ''Hello''] \<and>
   map_of (collectCells currentEngine [asc ''Hello''] sharedOnce) (asc ''A1'') =
     Some \<lparr>cell_row = 1, cell_col = asc ''A'', cell_value = asc ''0''\<rparr>"
proof -
  have key: "cellKey currentEngine (asc ''A'') (asc ''1'') = asc ''A1''"
    by (simp add: cellKey_def small_numbers) (simp add: asc_def)
  have sl: "sharedStringList (asc ''<si><t>Hello</t></si>'') = [asc ''Hello'']"
    by (simp add: sharedStringList_def siHere_def tHere_def tagOpen_def asc_def)
  have mem: "(asc ''A'', asc ''1'', asc ''0'') \<in> set (all_matches sharedHere sharedOnce)"
    by (simp add: matches_sharedOnce)
  show ?thesis
    using mem sl
      shared_cells_overwritten [OF mem, of currentEngine "[asc ''Hello'']"]
    by (simp add: matches_sharedOnce key small_numbers)
qed

text \<open>
  With a second cell A1 after the shared-string cell A1, the map ends with the value of
  the second one, which is neither the index nor the shared string.
\<close>

lemma matches_sharedTwice:
  "all_matches sharedHere sharedTwice = [(asc ''A'', asc ''1'', asc ''0'')]"
  "all_matches inlineHere sharedTwice = []"
  "all_matches numericHere sharedTwice =
     [(asc ''A'', asc ''1'', asc ''0''), (asc ''A'', asc ''1'', asc ''99'')]"
  by (simp_all add: sharedTwice_def sharedHere_def inlineHere_def numericHere_def cellRef_def
      delimited_def ends_with_def isUpper_def isDigit_def asc_def)

theorem shared_cell_counterexample:
  "all_matches sharedHere sharedTwice = [(asc ''A'', asc ''1'', asc ''0'')] \<and>
   first_match sstHere sharedTwice \<noteq> None \<and>
   sharedStringList (fst (the (first_match sstHere sharedTwice))) = [asc ''Hello''] \<and>
   collectCells currentEngine [asc ''Hello''] sharedTwice =
     [(asc ''A1'', \<lparr>cell_row = 1, cell_col = asc ''A'', cell_value = asc ''99''\<rparr>)] \<and>
   asc ''99'' \<noteq> asc ''0'' \<and>
   sharedStringTables currentEngine sharedTwice =
     [\<lparr>table_name = asc ''Recovered Spreadsheet'',
       table_data = [[[], asc ''A''], [asc ''1'', asc ''99'']]\<rparr>]"
proof -
  have key: "cellKey currentEngine (asc ''A'') (asc ''1'') = asc ''A1''"
    by (simp add: cellKey_def small_numbers) (simp add: asc_def)
  have sst: "first_match sstHere sharedTwice =
     Some (asc ''<si><t>Hello</t></si>'',
           asc ''<c r=\"A1\" t=\"s\"><v>0</v></c><c r=\"A1\"><v>99</v></c>'')"
    by (simp add: sharedTwice_def sstHere_def tagOpen_def asc_def)
  have sl: "sharedStringList (asc ''<si><t>Hello</t></si>'') = [asc ''Hello'']"
    by (simp add: sharedStringList_def siHere_def tHere_def tagOpen_def asc_def)
  have cc: "collectCells currentEngine [asc ''Hello''] sharedTwice =
     [(asc ''A1'', \<lparr>cell_row = 1, cell_col = asc ''A'', cell_value = asc ''99''\<rparr>)]"
    by (simp add: collectCells_def matches_sharedTwice putShared_def putCell_def key
        small_numbers zero_enat_def)
  have ne: "asc ''<si><t>Hello</t></si>'' \<noteq> []" by (simp add: asc_def)
  have tab: "sharedStringTables currentEngine sharedTwice =
     [\<lparr>table_name = asc ''Recovered Spreadsheet'',
       table_data = [[[], asc ''A''], [asc ''1'', asc ''99'']]\<rparr>]"
    using ne
    by (simp add: sharedStringTables_def sst sl cc cellTable_def small_numbers) (simp add: asc_def)
  have d: "asc ''99'' \<noteq> asc ''0''" by (simp add: asc_def)
  show ?thesis
    using matches_sharedTwice(1) sst sl cc d tab by simp
qed

text \<open>
  Row numbers are doubles, and from \<open>2^53\<close> on the digits are rounded: the rows
  9007199254740993 and 9007199254740992 are the same number and share a key, so a
  shared-string cell in the first is overwritten by a raw value in the second.
\<close>

lemma decimalValue_big:
  "decimalValue (asc ''9007199254740993'') = 9007199254740993"
  "decimalValue (asc ''9007199254740992'') = 9007199254740992"
  by (simp_all add: decimalValue_def asc_def)

lemma bit_length_big: "bit_length 9007199254740993 = 54" "bit_length 9007199254740992 = 54"
  by (simp_all add: bit_length.simps)

lemma roundToDouble_big: "roundToDouble 9007199254740993 = 9007199254740992"
  "roundToDouble 9007199254740992 = 9007199254740992"
  by (simp_all add: roundToDouble_def bit_length_big Let_def)

lemma below_overflow: "(9007199254740992::nat) < 2 ^ 1024"
proof -
  have "(9007199254740992::nat) < 2 ^ 54" by simp
  also have "(2::nat) ^ 54 \<le> 2 ^ 1024" by (rule power_increasing) simp_all
  finally show ?thesis .
qed

lemma parseInt_big:
  "parseInt currentEngine (asc ''9007199254740993'') = enat 9007199254740992"
  "parseInt currentEngine (asc ''9007199254740992'') = enat 9007199254740992"
  using below_overflow
  by (simp_all add: currentEngine_def toDouble_def decimalValue_big roundToDouble_big Let_def)

lemma rounded_rows_share_a_key:
  "cellKey currentEngine (asc ''A'') (asc ''9007199254740993'') =
     cellKey currentEngine (asc ''A'') (asc ''9007199254740992'') \<and>
   collectCells currentEngine [asc ''Hello'']
     (asc ''<c r=\"A9007199254740993\" t=\"s\"><v>0</v></c><c r=\"A9007199254740992\"><v>77</v></c>'') =
   [(cellKey currentEngine (asc ''A'') (asc ''9007199254740992''),
     \<lparr>cell_row = enat 9007199254740992, cell_col = asc ''A'', cell_value = asc ''77''\<rparr>)]"
proof -
  have m: "all_matches sharedHere
      (asc ''<c r=\"A9007199254740993\" t=\"s\"><v>0</v></c><c r=\"A9007199254740992\"><v>77</v></c>'') =
      [(asc ''A'', asc ''9007199254740993'', asc ''0'')]"
    "all_matches inlineHere
      (asc ''<c r=\"A9007199254740993\" t=\"s\"><v>0</v></c><c r=\"A9007199254740992\"><v>77</v></c>'') = []"
    "all_matches numericHere
      (asc ''<c r=\"A9007199254740993\" t=\"s\"><v>0</v></c><c r=\"A9007199254740992\"><v>77</v></c>'') =
      [(asc ''A'', asc ''9007199254740993'', asc ''0''),
       (asc ''A'', asc ''9007199254740992'', asc ''77'')]"
    by (simp_all add: sharedHere_def inlineHere_def numericHere_def cellRef_def
        delimited_def ends_with_def isUpper_def isDigit_def asc_def)
  have z: "parseInt currentEngine (asc ''0'') = 0"
    by (simp add: currentEngine_def toDouble_def decimalValue_def roundToDouble_def
        bit_length.simps [of 0] zero_enat_def asc_def)
  have key: "cellKey currentEngine (asc ''A'') (asc ''9007199254740993'') =
             cellKey currentEngine (asc ''A'') (asc ''9007199254740992'')"
    by (simp add: cellKey_def parseInt_big)
  show ?thesis
    by (simp add: collectCells_def m putShared_def putCell_def key parseInt_big z zero_enat_def)
qed

end
